theory Spec2Isabelle
  imports Main
begin

section \<open>JavaScript values\<close>

text \<open>
  The values that travel through the criteria builder and the table gateway: bound
  parameters, option values, row fields. Objects are association lists, in property
  order. Numbers are the integers (the builder and the gateway compare them with zero
  and print them, and lodash asks of a \<^verbatim>\<open>length\<close> whether it is a whole number within
  a range); strings are lists of 8-bit characters.
\<close>

datatype jsval =
    JUndefined
  | JNull
  | JBool bool
  | JNum int
  | JStr string
  | JArr "jsval list"
  | JObj "(string \<times> jsval) list"

type_synonym obj = "(string \<times> jsval) list"

text \<open>\<^verbatim>\<open>typeof x === 'undefined' || x === null\<close>, which is also lodash's \<^verbatim>\<open>_.isNil\<close>.\<close>

fun isNil :: "jsval \<Rightarrow> bool" where
  "isNil JUndefined = True"
| "isNil JNull = True"
| "isNil _ = False"

text \<open>ToBoolean: what \<^verbatim>\<open>&&\<close>, \<^verbatim>\<open>||\<close> and \<^verbatim>\<open>if\<close> test.\<close>

fun truthy :: "jsval \<Rightarrow> bool" where
  "truthy JUndefined = False"
| "truthy JNull = False"
| "truthy (JBool b) = b"
| "truthy (JNum n) = (n \<noteq> 0)"
| "truthy (JStr s) = (s \<noteq> [])"
| "truthy (JArr _) = True"
| "truthy (JObj _) = True"

definition js_and :: "jsval \<Rightarrow> jsval \<Rightarrow> jsval" where
  "js_and a b = (if truthy a then b else a)"

definition js_or :: "jsval \<Rightarrow> jsval \<Rightarrow> jsval" where
  "js_or a b = (if truthy a then a else b)"

text \<open>
  Reading a property that the receiver may lack. Only objects carry own properties here;
  reading a property of a number, a boolean, a string or an array gives \<^verbatim>\<open>undefined\<close>
  (the one inherited property the code reads, \<^verbatim>\<open>length\<close>, is \<open>js_length\<close> below).
  The callers below only read a property of a receiver already known to be truthy.
\<close>

fun js_prop :: "jsval \<Rightarrow> string \<Rightarrow> jsval" where
  "js_prop (JObj ps) k = (case map_of ps k of Some v \<Rightarrow> v | None \<Rightarrow> JUndefined)"
| "js_prop _ k = JUndefined"

text \<open>\<^verbatim>\<open>x.length\<close> for a non-nil \<open>x\<close>.\<close>

fun js_length :: "jsval \<Rightarrow> jsval" where
  "js_length (JStr s) = JNum (int (length s))"
| "js_length (JArr xs) = JNum (int (length xs))"
| "js_length (JObj ps) = js_prop (JObj ps) ''length''"
| "js_length _ = JUndefined"

fun isArray :: "jsval \<Rightarrow> bool" where
  "isArray (JArr _) = True"
| "isArray _ = False"

subsection \<open>Strings\<close>

text \<open>
  \<^verbatim>\<open>String.prototype.toUpperCase\<close>: an ASCII letter goes to its capital, every other
  character of the 8-bit alphabet stays.
\<close>

definition upper_char :: "char \<Rightarrow> char" where
  "upper_char c =
     (let n = (of_char c :: nat) in if 97 \<le> n \<and> n \<le> 122 then char_of (n - 32) else c)"

definition toUpperCase :: "string \<Rightarrow> string" where
  "toUpperCase s = map upper_char s"

definition endsWith :: "string \<Rightarrow> string \<Rightarrow> bool" where
  "endsWith s suf = (length suf \<le> length s \<and> drop (length s - length suf) s = suf)"

definition startsWith :: "string \<Rightarrow> string \<Rightarrow> bool" where
  "startsWith s pre = (take (length pre) s = pre)"

fun str_includes :: "string \<Rightarrow> string \<Rightarrow> bool" where
  "str_includes [] p = (p = [])"
| "str_includes (c # cs) p = (startsWith (c # cs) p \<or> str_includes cs p)"

section \<open>The criteria builder (lib/criteria-helper.js)\<close>

text \<open>
  The builder's state and the methods that write the clause and its parameters. The
  methods \<^verbatim>\<open>orderBy\<close>, \<^verbatim>\<open>limit\<close> and \<^verbatim>\<open>offset\<close> write \<^verbatim>\<open>queryOptions\<close> only, which no
  method reads; they are not needed below and are left out.
\<close>

record criteria_helper =
  whereClause :: string
  parms :: "jsval list"
  queryOptions :: obj
  omitNull :: jsval
  omitEmpty :: jsval

text \<open>
  The constructor, the same in lib/criteria-helper.js and in helpers/criteria.js.
  \<^verbatim>\<open>opts && opts.omitIfNull || true\<close> parses as \<^verbatim>\<open>(opts && opts.omitIfNull) || true\<close>.
\<close>

definition CriteriaHelper :: "jsval \<Rightarrow> criteria_helper" where
  "CriteriaHelper opts =
     \<lparr> whereClause = [],
       parms = [],
       queryOptions = [],
       omitNull = js_or (js_and opts (js_prop opts ''omitIfNull'')) (JBool True),
       omitEmpty = js_or (js_and opts (js_prop opts ''omitIfEmpty'')) (JBool True) \<rparr>"

definition andGroup :: "criteria_helper \<Rightarrow> criteria_helper" where
  "andGroup h =
     (if whereClause h = [] \<or> endsWith (whereClause h) ''(''
      then h\<lparr>whereClause := whereClause h @ '' (''\<rparr>
      else h\<lparr>whereClause := whereClause h @ '' AND (''\<rparr>)"

definition orGroup :: "criteria_helper \<Rightarrow> criteria_helper" where
  "orGroup h =
     (if whereClause h = [] \<or> endsWith (whereClause h) ''(''
      then h\<lparr>whereClause := whereClause h @ '' (''\<rparr>
      else h\<lparr>whereClause := whereClause h @ '' OR (''\<rparr>)"

definition groupEnd :: "criteria_helper \<Rightarrow> criteria_helper" where
  "groupEnd h = h\<lparr>whereClause := whereClause h @ '' ) ''\<rparr>"

definition isEmpty :: "jsval \<Rightarrow> bool" where
  "isEmpty x = (isNil x \<or> (\<not> isArray x \<and> js_length x = JNum 0))"

text \<open>
  \<^verbatim>\<open>_where(bool, name, oper, value)\<close> is \<open>private_where\<close>; the methods \<^verbatim>\<open>and\<close>,
  \<^verbatim>\<open>or\<close> and \<^verbatim>\<open>where\<close> are \<open>and_call\<close>, \<open>or_call\<close> and \<open>where_call\<close>. The
  connective, the column name and the operator are strings; the value is any value.
\<close>

definition unary :: "string \<Rightarrow> bool" where
  "unary oper = (oper = ''IS NOT NULL'' \<or> oper = ''IS NULL'')"

definition private_where :: "string \<Rightarrow> string \<Rightarrow> string \<Rightarrow> jsval \<Rightarrow> criteria_helper \<Rightarrow> criteria_helper" where
  "private_where bool name oper0 val h =
     (let oper = toUpperCase oper0 in
      if \<not> unary oper \<and> isNil val \<and> truthy (omitNull h) then h
      else if \<not> unary oper \<and> isEmpty val \<and> truthy (omitEmpty h) then h
      else
        let h1 = (if whereClause h = [] \<or> endsWith (whereClause h) ''(''
                  then h\<lparr>whereClause := whereClause h @ name @ '' '' @ oper\<rparr>
                  else h\<lparr>whereClause := whereClause h @ '' '' @ bool @ '' '' @ name @ '' '' @ oper\<rparr>)
        in
        if unary oper then h1
        else if oper = ''LIKE''
          then h1\<lparr>whereClause := whereClause h1 @ '' ?'', parms := parms h1 @ [val]\<rparr>
        else if str_includes oper ''IN''
          then h1\<lparr>whereClause := whereClause h1 @ ''(?)'', parms := parms h1 @ [val]\<rparr>
        else h1\<lparr>whereClause := whereClause h1 @ ''?'', parms := parms h1 @ [val]\<rparr>)"

definition and_call :: "string \<Rightarrow> string \<Rightarrow> jsval \<Rightarrow> criteria_helper \<Rightarrow> criteria_helper" where
  "and_call name oper val h = private_where ''AND'' name oper val h"

definition or_call :: "string \<Rightarrow> string \<Rightarrow> jsval \<Rightarrow> criteria_helper \<Rightarrow> criteria_helper" where
  "or_call name oper val h = private_where ''OR'' name oper val h"

definition where_call :: "string \<Rightarrow> string \<Rightarrow> string \<Rightarrow> jsval \<Rightarrow> criteria_helper \<Rightarrow> criteria_helper" where
  "where_call bool name oper val h = private_where bool name oper val h"


section \<open>Printing values and writing properties\<close>

text \<open>
  String concatenation converts its operand with ToString: a number prints in decimal, an
  array prints its elements joined by commas.
\<close>

fun digits :: "nat \<Rightarrow> string" where
  "digits n = (if n < 10 then [char_of (48 + n)] else digits (n div 10) @ [char_of (48 + n mod 10)])"

declare digits.simps [simp del]

definition show_int :: "int \<Rightarrow> string" where
  "show_int i = (if i < 0 then CHR ''-'' # digits (nat (- i)) else digits (nat i))"

fun join :: "string \<Rightarrow> string list \<Rightarrow> string" where
  "join sep [] = []"
| "join sep [x] = x"
| "join sep (x # y # ys) = x @ sep @ join sep (y # ys)"

fun js_toString :: "jsval \<Rightarrow> string" where
  "js_toString JUndefined = ''undefined''"
| "js_toString JNull = ''null''"
| "js_toString (JBool b) = (if b then ''true'' else ''false'')"
| "js_toString (JNum n) = show_int n"
| "js_toString (JStr s) = s"
| "js_toString (JArr xs) = join '','' (map (\<lambda>x. if isNil x then [] else js_toString x) xs)"
| "js_toString (JObj ps) = ''[object Object]''"

text \<open>\<^verbatim>\<open>o[k] = v\<close>: an existing property keeps its place, a new one goes last.\<close>

fun obj_set :: "obj \<Rightarrow> string \<Rightarrow> jsval \<Rightarrow> obj" where
  "obj_set [] k v = [(k, v)]"
| "obj_set ((k', v') # ps) k v = (if k' = k then (k, v) # ps else (k', v') # obj_set ps k v)"

subsection \<open>Walking the properties of an object\<close>

text \<open>
  A loop over an object is modelled by the list of the (key, value) pairs that its body
  sees, in order. \<^verbatim>\<open>for (let k in o)\<close> with \<^verbatim>\<open>o[k]\<close>, the loop of the later revision,
  sees the names of the properties, as strings.
\<close>

definition for_in :: "obj \<Rightarrow> (jsval \<times> jsval) list" where
  "for_in ob = map (\<lambda>k. (JStr k, js_prop (JObj ob) k)) (map fst ob)"

text \<open>
  lodash's \<^verbatim>\<open>_.each(o, function(v, k){...})\<close>, the loop of lib/mysql/dao.js, first asks
  whether \<^verbatim>\<open>o\<close> is array-like: whether \<^verbatim>\<open>o.length\<close> is a number with
  \<^verbatim>\<open>length > -1 && length % 1 == 0 && length <= 9007199254740991\<close>. An array-like
  object is walked by index, from 0 up to \<^verbatim>\<open>length - 1\<close>: the keys are these numbers and
  the values are \<^verbatim>\<open>o[index]\<close>, whatever other properties the object has. Any other object
  is walked by its own properties. (A body that returns \<^verbatim>\<open>false\<close> would end the walk;
  none of the gateway's does.)
\<close>

fun array_length :: "jsval \<Rightarrow> int option" where
  "array_length (JNum n) = (if -1 < n \<and> n \<le> 9007199254740991 then Some n else None)"
| "array_length _ = None"

definition isArrayLike :: "obj \<Rightarrow> bool" where
  "isArrayLike ob = (array_length (js_prop (JObj ob) ''length'') \<noteq> None)"

definition lodash_each :: "obj \<Rightarrow> (jsval \<times> jsval) list" where
  "lodash_each ob =
     (case array_length (js_prop (JObj ob) ''length'') of
        Some n \<Rightarrow> map (\<lambda>i. (JNum i, js_prop (JObj ob) (show_int i))) [0..n - 1]
      | None \<Rightarrow> for_in ob)"

section \<open>The table gateway (lib/mysql/dao.js)\<close>

subsection \<open>The pool, its answers and its errors\<close>

text \<open>
  What a rejected promise carries: an error the gateway raises itself with
  \<^verbatim>\<open>new Error(message)\<close>, a TypeError or ReferenceError of the language, or the error the
  pool's query callback reported.
\<close>

datatype js_error =
    Error string
  | TypeError string
  | ReferenceError string
  | DriverError string

fun message :: "js_error \<Rightarrow> string" where
  "message (Error m) = m"
| "message (TypeError m) = m"
| "message (ReferenceError m) = m"
| "message (DriverError m) = m"

text \<open>
  The pool answers a query with a row array, or with an acknowledgement bearing
  \<^verbatim>\<open>affectedRows\<close> and, when the driver reports one, \<^verbatim>\<open>insertId\<close>.
\<close>

datatype dbresult = Rows "obj list" | Ack int "int option"

fun affectedRows :: "dbresult \<Rightarrow> jsval" where
  "affectedRows (Ack n i) = JNum n"
| "affectedRows (Rows rs) = JUndefined"

fun insertId :: "dbresult \<Rightarrow> jsval" where
  "insertId (Ack n (Some i)) = JNum i"
| "insertId (Ack n None) = JUndefined"
| "insertId (Rows rs) = JUndefined"

text \<open>\<^verbatim>\<open>x > 0\<close> for the values above: a number compares, \<^verbatim>\<open>undefined\<close> never is greater.\<close>

fun js_positive :: "jsval \<Rightarrow> bool" where
  "js_positive (JNum n) = (0 < n)"
| "js_positive _ = False"

type_synonym stmt = "string \<times> jsval list"

text \<open>
  The pool is not part of the gateway: it is a parameter, a function from the statements
  issued so far and the statement at hand to the callback's error or result.
\<close>

type_synonym pool = "stmt list \<Rightarrow> string \<Rightarrow> jsval list \<Rightarrow> js_error + dbresult"

subsection \<open>The gateway's state\<close>

record column_meta =
  column :: string
  sql_type :: string
  pk :: bool
  nullable :: bool
  default_value :: jsval
  autoincrement :: bool
  is_updated_timestamp :: bool
  is_created_timestamp :: bool
  is_updated_version :: bool

record dao_options =
  created_timestamp_column :: jsval
  updated_timestamp_column :: jsval
  version_number_column :: jsval

text \<open>
  Besides the fields of the class, the state carries what the gateway does to its
  surroundings: the statements handed to the pool, in order, and the lines written with
  \<^verbatim>\<open>console.error\<close>. \<open>moment_format\<close> stands for
  \<^verbatim>\<open>moment(input).format('YYYY-MM-DD HH:mm:ss')\<close> of the imported library. The calls to
  \<^verbatim>\<open>debug\<close> and \<^verbatim>\<open>verbose\<close> write to a disabled logger and are left out, except
  where evaluating their argument can throw.
\<close>

record dao =
  pool :: pool
  table :: string
  entity :: string
  options :: dao_options
  metadata :: "column_meta list option"
  moment_format :: "jsval \<Rightarrow> jsval"
  issued :: "stmt list"
  console :: "string list"

type_synonym 'a promise = "(js_error + 'a) \<times> dao"

definition default_options :: dao_options where
  "default_options =
     \<lparr> created_timestamp_column = JStr ''created'',
       updated_timestamp_column = JStr ''updated'',
       version_number_column = JStr ''version'' \<rparr>"

text \<open>
  The constructor: \<^verbatim>\<open>this.options = (opts || {...})\<close>, \<^verbatim>\<open>this.metadata = null\<close>. The
  plural of the entity name, which no operation reads, is left out.
\<close>

definition Dao :: "string \<Rightarrow> string \<Rightarrow> dao_options option \<Rightarrow> pool \<Rightarrow> (jsval \<Rightarrow> jsval) \<Rightarrow> dao" where
  "Dao tbl ent opts p fmt =
     \<lparr> pool = p, table = tbl, entity = ent,
       options = (case opts of None \<Rightarrow> default_options | Some given \<Rightarrow> given),
       metadata = None, moment_format = fmt, issued = [], console = [] \<rparr>"

text \<open>\<^verbatim>\<open>sqlCommand(sql, parms)\<close>: hand the statement to the pool, reject with its error or resolve with its result.\<close>

definition sqlCommand :: "string \<Rightarrow> jsval list \<Rightarrow> dao \<Rightarrow> dbresult promise" where
  "sqlCommand sql ps d = (pool d (issued d) sql ps, d\<lparr>issued := issued d @ [(sql, ps)]\<rparr>)"

text \<open>
  The frame of every operation: \<^verbatim>\<open>try { ... } catch (err) { console.error(`${this.entity} <name> error. Details: ${err.message}`); throw err; }\<close>
\<close>

definition logged :: "string \<Rightarrow> (dao \<Rightarrow> 'a promise) \<Rightarrow> dao \<Rightarrow> 'a promise" where
  "logged name body d =
     (case body d of
        (Inl err, d1) \<Rightarrow>
          (Inl err, d1\<lparr>console := console d1 @ [entity d1 @ '' '' @ name @ '' error. Details: '' @ message err]\<rparr>)
      | (Inr r, d1) \<Rightarrow> (Inr r, d1))"

subsection \<open>Metadata\<close>

text \<open>One row of \<^verbatim>\<open>SHOW COLUMNS\<close> as a metadata entry; the driver reports \<^verbatim>\<open>Field\<close> and \<^verbatim>\<open>Type\<close> as strings.\<close>

definition column_of_row :: "dao_options \<Rightarrow> obj \<Rightarrow> column_meta" where
  "column_of_row opts item =
     \<lparr> column = js_toString (js_prop (JObj item) ''Field''),
       sql_type = js_toString (js_prop (JObj item) ''Type''),
       pk = (js_prop (JObj item) ''Key'' = JStr ''PRI''),
       nullable = (js_prop (JObj item) ''Null'' = JStr ''YES''),
       default_value = js_prop (JObj item) ''Default'',
       autoincrement = (js_prop (JObj item) ''Extra'' = JStr ''auto_increment''),
       is_updated_timestamp =
         (\<not> isNil (updated_timestamp_column opts) \<and> js_prop (JObj item) ''Field'' = updated_timestamp_column opts),
       is_created_timestamp =
         (\<not> isNil (created_timestamp_column opts) \<and> js_prop (JObj item) ''Field'' = created_timestamp_column opts),
       is_updated_version =
         (\<not> isNil (version_number_column opts) \<and> js_prop (JObj item) ''Field'' = version_number_column opts) \<rparr>"

text \<open>
  \<^verbatim>\<open>fetchMetadata()\<close>. Its \<^verbatim>\<open>catch\<close> writes to the console and does not rethrow, so the
  promise always resolves; the callers ignore the resolved value. An acknowledgement in
  place of a row array has no \<^verbatim>\<open>map\<close>, which throws inside the same \<^verbatim>\<open>try\<close>.
\<close>

definition fetchMetadata :: "dao \<Rightarrow> dao" where
  "fetchMetadata d =
     (case metadata d of
        Some m \<Rightarrow> d
      | None \<Rightarrow>
          (case sqlCommand (''SHOW COLUMNS FROM '' @ table d @ '';'') [] d of
             (Inl ex, d1) \<Rightarrow> d1\<lparr>console := console d1 @ [''Error. '' @ message ex]\<rparr>
           | (Inr (Rows results), d1) \<Rightarrow> d1\<lparr>metadata := Some (map (column_of_row (options d1)) results)\<rparr>
           | (Inr (Ack n i), d1) \<Rightarrow>
               d1\<lparr>console := console d1 @ [''Error. '' @ message (TypeError ''results.map is not a function'')]\<rparr>))"

text \<open>lodash's \<^verbatim>\<open>_.filter\<close> and \<^verbatim>\<open>_.find\<close> take \<^verbatim>\<open>null\<close> for an empty collection.\<close>

definition columns_of :: "dao \<Rightarrow> column_meta list" where
  "columns_of d = (case metadata d of None \<Rightarrow> [] | Some m \<Rightarrow> m)"

subsection \<open>Query options\<close>

record query_opts =
  columns :: "string list option"
  orderBy :: "string list option"
  limit :: jsval
  offset :: jsval
  booleanMode :: jsval

text \<open>One pass of either \<^verbatim>\<open>for\<close> loop of \<^verbatim>\<open>_appendOrderByAndLimit\<close>, with the index \<open>i\<close>.\<close>

definition order_term :: "string \<Rightarrow> string" where
  "order_term colname =
     (if startsWith colname ''-'' then drop 1 colname @ '' '' @ ''DESC''
      else if startsWith colname ''+'' then drop 1 colname @ '' '' @ ''ASC''
      else colname @ '' '' @ ''ASC'')"

fun order_loop :: "(string \<Rightarrow> string) \<Rightarrow> string list \<Rightarrow> nat \<Rightarrow> string \<Rightarrow> string" where
  "order_loop f [] i acc = acc"
| "order_loop f (x # xs) i acc = order_loop f xs (Suc i) ((if 0 < i then acc @ '', '' else acc) @ f x)"

definition appendOrderByAndLimit :: "dao \<Rightarrow> string \<Rightarrow> query_opts option \<Rightarrow> string" where
  "appendOrderByAndLimit d sql opts =
     (let orderBy1 =
            (case opts of
               None \<Rightarrow> []
             | Some qo \<Rightarrow>
                 (case orderBy qo of
                    None \<Rightarrow> []
                  | Some cs \<Rightarrow> if 0 < length cs then order_loop order_term cs 0 '' ORDER BY '' else []));
          limit1 =
            (case opts of
               None \<Rightarrow> []
             | Some qo \<Rightarrow>
                 (if \<not> isNil (limit qo) then '' LIMIT '' @ js_toString (limit qo) else '' LIMIT 1000'')
                 @ (if \<not> isNil (offset qo) then '' OFFSET '' @ js_toString (offset qo) else []));
          orderBy2 =
            (if orderBy1 = [] then
               (let pks = filter pk (columns_of d) in
                if 0 < length pks then order_loop (\<lambda>c. c @ '' ASC'') (map column pks) 0 (orderBy1 @ '' ORDER BY '')
                else orderBy1)
             else orderBy1)
      in sql @ orderBy2 @ limit1)"

text \<open>
  The body of the loop over a filter object, shared by find, count, updateMatching and
  deleteMatching, run over the pairs of a walk: \<^verbatim>\<open>where += k+'=?'\<close> prints the key.
\<close>

fun where_loop :: "string \<Rightarrow> (jsval \<times> jsval) list \<Rightarrow> string \<times> jsval list \<Rightarrow> string \<times> jsval list" where
  "where_loop bool [] acc = acc"
| "where_loop bool ((k, v) # rest) (wh, ps) =
     where_loop bool rest ((if wh \<noteq> [] then wh @ bool else wh) @ js_toString k @ ''=?'', ps @ [v])"

definition boolean_mode :: "query_opts option \<Rightarrow> string" where
  "boolean_mode opts =
     (case opts of
        None \<Rightarrow> '' AND ''
      | Some qo \<Rightarrow> if \<not> isNil (booleanMode qo) then '' '' @ js_toString (booleanMode qo) @ '' '' else '' AND '')"

definition whichcols :: "query_opts option \<Rightarrow> string" where
  "whichcols opts =
     (case opts of
        None \<Rightarrow> ''*''
      | Some qo \<Rightarrow> (case columns qo of None \<Rightarrow> ''*'' | Some cs \<Rightarrow> join '','' cs))"


subsection \<open>Reading\<close>

text \<open>
  \<^verbatim>\<open>exists(id)\<close>. The argument of the \<^verbatim>\<open>debug\<close> call reads \<^verbatim>\<open>results[0].count\<close>, which
  throws when there is no first row; the line after it calls \<^verbatim>\<open>resolve\<close>, which no
  scope of the file declares.
\<close>

definition exists_body :: "jsval \<Rightarrow> dao \<Rightarrow> jsval promise" where
  "exists_body ident d =
     (let d1 = fetchMetadata d;
          sql = ''SELECT count(*) as count FROM '' @ table d1 @ '' WHERE id = ?''
      in case sqlCommand sql [ident] d1 of
           (Inl err, d2) \<Rightarrow> (Inl err, d2)
         | (Inr (Rows (r # rs)), d2) \<Rightarrow> (Inl (ReferenceError ''resolve is not defined''), d2)
         | (Inr res, d2) \<Rightarrow>
             (Inl (TypeError ''Cannot read properties of undefined (reading 'count')''), d2))"

definition exists :: "jsval \<Rightarrow> dao \<Rightarrow> jsval promise" where
  "exists ident d = logged ''exists'' (exists_body ident) d"

text \<open>\<^verbatim>\<open>find(query, opts)\<close>; a nil \<^verbatim>\<open>query\<close> is the empty object to \<^verbatim>\<open>_.each\<close>.\<close>

definition where_sql :: "string \<Rightarrow> string \<Rightarrow> string" where
  "where_sql sql wh = (if wh \<noteq> [] then sql @ '' WHERE '' @ wh else sql)"

definition find_body :: "obj \<Rightarrow> query_opts option \<Rightarrow> dao \<Rightarrow> dbresult promise" where
  "find_body query opts d =
     (let d1 = fetchMetadata d;
          sql = ''SELECT '' @ whichcols opts @ '' FROM '' @ table d1 @ '' '';
          (wh, ps) = where_loop (boolean_mode opts) (lodash_each query) ([], []);
          sql1 = where_sql sql wh;
          sql2 = appendOrderByAndLimit d1 sql1 opts
      in sqlCommand sql2 ps d1)"

definition find :: "obj \<Rightarrow> query_opts option \<Rightarrow> dao \<Rightarrow> dbresult promise" where
  "find query opts d = logged ''find'' (find_body query opts) d"

text \<open>\<^verbatim>\<open>count(query, opts)\<close> returns \<^verbatim>\<open>results[0].count\<close>.\<close>

definition count_body :: "obj \<Rightarrow> query_opts option \<Rightarrow> dao \<Rightarrow> jsval promise" where
  "count_body query opts d =
     (let d1 = fetchMetadata d;
          sql = ''SELECT count(*) as count FROM '' @ table d1 @ '' '';
          (wh, ps) = where_loop (boolean_mode opts) (lodash_each query) ([], []);
          sql1 = where_sql sql wh;
          sql2 = appendOrderByAndLimit d1 sql1 opts
      in case sqlCommand sql2 ps d1 of
           (Inl err, d2) \<Rightarrow> (Inl err, d2)
         | (Inr (Rows (r # rs)), d2) \<Rightarrow> (Inr (js_prop (JObj r) ''count''), d2)
         | (Inr res, d2) \<Rightarrow>
             (Inl (TypeError ''Cannot read properties of undefined (reading 'count')''), d2))"

definition count :: "obj \<Rightarrow> query_opts option \<Rightarrow> dao \<Rightarrow> jsval promise" where
  "count query opts d = logged ''count'' (count_body query opts) d"

subsection \<open>Writing\<close>

definition numeric_or_date :: "string \<Rightarrow> bool" where
  "numeric_or_date datatype =
     (datatype = ''datetime'' \<or> datatype = ''timestamp'' \<or> startsWith datatype ''int''
      \<or> startsWith datatype ''num'' \<or> startsWith datatype ''dec'')"

text \<open>\<^verbatim>\<open>_transformToSafeValue(input, column)\<close>.\<close>

definition transformToSafeValue :: "dao \<Rightarrow> jsval \<Rightarrow> column_meta \<Rightarrow> js_error + jsval" where
  "transformToSafeValue d input col =
     (if input = JStr [] then
        (if numeric_or_date (sql_type col) then
           (if nullable col then Inr JNull
            else Inl (Error (column col @ '' is not permitted to be empty.'')))
         else Inr input)
      else if \<not> isNil input then
        (if sql_type col = ''datetime'' \<or> sql_type col = ''timestamp''
         then Inr (moment_format d input) else Inr input)
      else Inr input)"

text \<open>
  The test that keeps a column out of the SET list of \<^verbatim>\<open>update\<close> and
  \<^verbatim>\<open>updateMatching\<close>: its name is one of the three configured names.
\<close>

definition driven :: "dao_options \<Rightarrow> column_meta \<Rightarrow> bool" where
  "driven opts col =
     (JStr (column col) = created_timestamp_column opts
      \<or> JStr (column col) = version_number_column opts
      \<or> JStr (column col) = updated_timestamp_column opts)"

text \<open>
  The body of the loop over \<^verbatim>\<open>save\<close> that builds the SET list and its parameters,
  run over the pairs of a walk. The column is the first one of \<open>not_pks\<close> whose name is
  strictly equal to the key (\<^verbatim>\<open>_.find(not_pks, {column: k})\<close>, and
  \<^verbatim>\<open>not_pks.find(x => x.column === k)\<close> in the later revision), so a numeric key finds
  none. \<open>tr\<close> is the value transform of the revision at hand.
\<close>

fun sets_loop ::
  "(jsval \<Rightarrow> column_meta \<Rightarrow> js_error + jsval) \<Rightarrow> dao_options \<Rightarrow> column_meta list
   \<Rightarrow> (jsval \<times> jsval) list \<Rightarrow> string \<times> jsval list \<Rightarrow> js_error + string \<times> jsval list" where
  "sets_loop tr opts not_pks [] acc = Inr acc"
| "sets_loop tr opts not_pks ((k, v) # rest) (sets, ps) =
     (case List.find (\<lambda>c. JStr (column c) = k) not_pks of
        None \<Rightarrow> sets_loop tr opts not_pks rest (sets, ps)
      | Some col \<Rightarrow>
          if driven opts col then sets_loop tr opts not_pks rest (sets, ps)
          else
            (case tr v col of
               Inl err \<Rightarrow> Inl err
             | Inr parmVal \<Rightarrow>
                 sets_loop tr opts not_pks rest
                   ((if sets \<noteq> [] then sets @ '', '' else sets) @ column col @ ''=?'',
                    ps @ [if isNil parmVal then JNull else parmVal])))"

definition versioning :: "dao_options \<Rightarrow> string" where
  "versioning opts =
     (if truthy (updated_timestamp_column opts)
      then '', '' @ js_toString (updated_timestamp_column opts) @ ''=CURRENT_TIMESTAMP'' else [])
     @ (if truthy (version_number_column opts)
        then '', '' @ js_toString (version_number_column opts) @ ''=''
             @ js_toString (version_number_column opts) @ ''+1''
        else [])"

text \<open>The loop of \<^verbatim>\<open>update\<close> over the primary-key columns.\<close>

fun pk_loop :: "obj \<Rightarrow> column_meta list \<Rightarrow> string \<times> jsval list \<Rightarrow> string \<times> jsval list" where
  "pk_loop save [] acc = acc"
| "pk_loop save (col # rest) (wh, ps) =
     pk_loop save rest
       ((if wh \<noteq> [] then wh @ '' AND '' else wh) @ column col @ ''=?'',
        ps @ [js_prop (JObj save) (column col)])"

text \<open>\<^verbatim>\<open>update(save, opts)\<close>.\<close>

definition update_body :: "obj \<Rightarrow> dao \<Rightarrow> obj promise" where
  "update_body save d =
     (let d1 = fetchMetadata d;
          sql = ''UPDATE '' @ table d1 @ '' SET '';
          not_pks = filter (\<lambda>col. pk col = False) (columns_of d1)
      in case sets_loop (transformToSafeValue d1) (options d1) not_pks (lodash_each save) ([], []) of
           Inl err \<Rightarrow> (Inl err, d1)
         | Inr (sets, ps) \<Rightarrow>
             if sets = [] then (Inl (Error ''No data was provided to update.''), d1)
             else
               (let sets1 = sets @ versioning (options d1);
                    sql1 = sql @ sets1;
                    pks = filter pk (columns_of d1);
                    (wh, ps1) = pk_loop save pks ([], ps);
                    sql2 = where_sql sql1 wh
                in case sqlCommand sql2 ps1 d1 of
                     (Inl err, d2) \<Rightarrow> (Inl err, d2)
                   | (Inr results, d2) \<Rightarrow> (Inr (obj_set save ''_affectedRows'' (affectedRows results)), d2)))"

definition update :: "obj \<Rightarrow> dao \<Rightarrow> obj promise" where
  "update save d = logged ''update'' (update_body save) d"

text \<open>\<^verbatim>\<open>_.isEmpty\<close> of a filter object: nil, or an object without own properties.\<close>

definition lodash_isEmpty :: "obj option \<Rightarrow> bool" where
  "lodash_isEmpty criteria = (case criteria of None \<Rightarrow> True | Some ps \<Rightarrow> ps = [])"

text \<open>\<^verbatim>\<open>updateMatching(save, criteria, opts)\<close>.\<close>

definition updateMatching_body :: "obj \<Rightarrow> obj option \<Rightarrow> query_opts option \<Rightarrow> dao \<Rightarrow> obj promise" where
  "updateMatching_body save criteria opts d =
     (if lodash_isEmpty criteria then (Inl (Error ''Entire table updates are not permitted.''), d)
      else
        (let d1 = fetchMetadata d;
             sql = ''UPDATE '' @ table d1 @ '' SET '';
             not_pks = filter (\<lambda>col. pk col = False) (columns_of d1)
         in case sets_loop (transformToSafeValue d1) (options d1) not_pks (lodash_each save) ([], []) of
              Inl err \<Rightarrow> (Inl err, d1)
            | Inr (sets, ps) \<Rightarrow>
                if sets = [] then (Inl (Error ''No data was provided to update.''), d1)
                else
                  (let sets1 = sets @ versioning (options d1);
                       sql1 = sql @ sets1;
                       (wh, ps1) = where_loop '' AND '' (lodash_each (case criteria of None \<Rightarrow> [] | Some c \<Rightarrow> c)) ([], ps);
                       sql2 = where_sql sql1 wh;
                       sql3 = appendOrderByAndLimit d1 sql2 opts
                   in case sqlCommand sql3 ps1 d1 of
                        (Inl err, d2) \<Rightarrow> (Inl err, d2)
                      | (Inr results, d2) \<Rightarrow>
                          (Inr (obj_set save ''_affectedRows'' (affectedRows results)), d2))))"

definition updateMatching :: "obj \<Rightarrow> obj option \<Rightarrow> query_opts option \<Rightarrow> dao \<Rightarrow> obj promise" where
  "updateMatching save criteria opts d = logged ''update'' (updateMatching_body save criteria opts) d"

text \<open>\<^verbatim>\<open>deleteMatching(criteria)\<close>.\<close>

definition deleteMatching_body :: "obj option \<Rightarrow> dao \<Rightarrow> obj promise" where
  "deleteMatching_body criteria d =
     (if lodash_isEmpty criteria then (Inl (Error ''Entire table deletes are not permitted.''), d)
      else
        (let d1 = fetchMetadata d;
             crit = (case criteria of None \<Rightarrow> [] | Some c \<Rightarrow> c);
             sql = ''DELETE FROM '' @ table d1 @ '' WHERE '';
             (wh, ps) = where_loop '' AND '' (lodash_each crit) ([], []);
             sql1 = sql @ wh
         in case sqlCommand sql1 ps d1 of
              (Inl err, d2) \<Rightarrow> (Inl err, d2)
            | (Inr results, d2) \<Rightarrow> (Inr (obj_set crit ''_affectedRows'' (affectedRows results)), d2)))"

definition deleteMatching :: "obj option \<Rightarrow> dao \<Rightarrow> obj promise" where
  "deleteMatching criteria d = logged ''deleteMatching'' (deleteMatching_body criteria) d"

text \<open>
  \<^verbatim>\<open>deleteWhere(where, parms)\<close>. Its last line calls \<^verbatim>\<open>resolve\<close>, as \<^verbatim>\<open>exists\<close> does.
\<close>

definition deleteWhere_body :: "string option \<Rightarrow> jsval list \<Rightarrow> dao \<Rightarrow> obj promise" where
  "deleteWhere_body wh ps d =
     (let d1 = fetchMetadata d;
          sql = ''DELETE FROM '' @ table d1 @ '' WHERE ''
      in case wh of
           None \<Rightarrow> (Inl (Error ''Could not delete. A WHERE clause must be provided.''), d1)
         | Some w \<Rightarrow>
             if w = [] then (Inl (Error ''Could not delete. A WHERE clause must be provided.''), d1)
             else
               (case sqlCommand (sql @ w) ps d1 of
                  (Inl err, d2) \<Rightarrow> (Inl err, d2)
                | (Inr results, d2) \<Rightarrow> (Inl (ReferenceError ''resolve is not defined''), d2)))"

definition deleteWhere :: "string option \<Rightarrow> jsval list \<Rightarrow> dao \<Rightarrow> obj promise" where
  "deleteWhere wh ps d = logged ''deleteWhere'' (deleteWhere_body wh ps) d"


text \<open>
  The body of the loop of \<^verbatim>\<open>create\<close> over \<^verbatim>\<open>save\<close>, run over the pairs of a walk:
  column list, placeholder list and parameters. The column is the first eligible one
  whose name is strictly equal to the key (\<^verbatim>\<open>_.find(not_ai_pks, {column: property_name})\<close>,
  and \<^verbatim>\<open>not_ai_pks.find(x => x.column === property_name)\<close> in the later revision).
  \<open>tr\<close> is the value transform of the revision at hand.
\<close>

fun insert_loop ::
  "(jsval \<Rightarrow> column_meta \<Rightarrow> js_error + jsval) \<Rightarrow> column_meta list \<Rightarrow> (jsval \<times> jsval) list
   \<Rightarrow> string \<times> string \<times> jsval list \<Rightarrow> js_error + string \<times> string \<times> jsval list" where
  "insert_loop tr eligible [] acc = Inr acc"
| "insert_loop tr eligible ((property_name, val) # rest) (cols, vals, ps) =
     (case List.find (\<lambda>c. JStr (column c) = property_name) eligible of
        None \<Rightarrow> insert_loop tr eligible rest (cols, vals, ps)
      | Some col \<Rightarrow>
          (case tr val col of
             Inl err \<Rightarrow> Inl err
           | Inr safe \<Rightarrow>
               insert_loop tr eligible rest
                 ((if cols \<noteq> [] then cols @ '', '' else cols) @ column col,
                  (if vals \<noteq> [] then vals @ '', '' else vals) @ ''?'',
                  ps @ [safe])))"

definition not_ai_pk :: "column_meta \<Rightarrow> bool" where
  "not_ai_pk col = ((pk col = True \<and> autoincrement col = False) \<or> pk col = False)"

text \<open>\<^verbatim>\<open>create(save, opts)\<close> of lib/mysql/dao.js; it does not read \<^verbatim>\<open>opts\<close>.\<close>

definition create_body :: "obj \<Rightarrow> dao \<Rightarrow> obj promise" where
  "create_body save d =
     (let d1 = fetchMetadata d;
          not_ai_pks = filter not_ai_pk (columns_of d1)
      in case insert_loop (transformToSafeValue d1) not_ai_pks (lodash_each save) ([], [], []) of
           Inl err \<Rightarrow> (Inl err, d1)
         | Inr (cols, vals, ps) \<Rightarrow>
             (let sql = ''INSERT INTO '' @ table d1 @ '' ('' @ cols @ '') VALUES ('' @ vals @ '');''
              in case sqlCommand sql ps d1 of
                   (Inl err, d2) \<Rightarrow> (Inl err, d2)
                 | (Inr results, d2) \<Rightarrow>
                     if js_positive (affectedRows results) \<and> \<not> isNil (insertId results)
                        \<and> js_positive (insertId results)
                     then
                       (case List.find (\<lambda>c. autoincrement c = True \<and> pk c = True) (columns_of d2) of
                          Some keyCol \<Rightarrow> (Inr (obj_set save (column keyCol) (insertId results)), d2)
                        | None \<Rightarrow> (Inr save, d2))
                     else (Inr save, d2)))"

definition create :: "obj \<Rightarrow> dao \<Rightarrow> obj promise" where
  "create save d = logged ''create'' (create_body save) d"

section \<open>The later revision of the gateway (src/unnamed/part_002)\<close>

text \<open>
  The revision of the class that carries the \<^verbatim>\<open>explicit_pk\<close> option of \<^verbatim>\<open>create\<close>
  ("since 4.4.0"). It has dropped lodash and moment: objects are walked with
  \<^verbatim>\<open>for ... in\<close>, \<^verbatim>\<open>this.metadata.filter\<close> throws on a metadata that is still
  \<^verbatim>\<open>null\<close>, and the value transform no longer formats dates. Its
  \<^verbatim>\<open>sqlCommand\<close> is the one above. Where a name is taken by the function of
  lib/mysql/dao.js, the function of this revision carries the suffix \<open>_v4\<close>.
\<close>

definition loadMetadata :: "dao \<Rightarrow> dao" where
  "loadMetadata d =
     (case metadata d of
        Some m \<Rightarrow> d
      | None \<Rightarrow>
          (case sqlCommand (''SHOW COLUMNS FROM '' @ table d @ '';'') [] d of
             (Inl ex, d1) \<Rightarrow> d1\<lparr>console := console d1 @ [''Error. '' @ message ex]\<rparr>
           | (Inr (Rows results), d1) \<Rightarrow> d1\<lparr>metadata := Some (map (column_of_row (options d1)) results)\<rparr>
           | (Inr (Ack n i), d1) \<Rightarrow>
               d1\<lparr>console := console d1 @ [''Error. '' @ message (TypeError ''results.map is not a function'')]\<rparr>))"

definition transformToSafeValue_v4 :: "jsval \<Rightarrow> column_meta \<Rightarrow> js_error + jsval" where
  "transformToSafeValue_v4 input col =
     (if input = JStr [] then
        (if numeric_or_date (sql_type col) then
           (if nullable col then Inr JNull
            else Inl (Error (column col @ '' is not permitted to be empty.'')))
         else Inr input)
      else Inr input)"

record create_opts =
  explicit_pk :: jsval

definition create_v4_body :: "obj \<Rightarrow> create_opts option \<Rightarrow> dao \<Rightarrow> obj promise" where
  "create_v4_body save opts d =
     (let d1 = loadMetadata d
      in case metadata d1 of
           None \<Rightarrow> (Inl (TypeError ''Cannot read properties of null (reading 'filter')''), d1)
         | Some md \<Rightarrow>
             (let not_ai_pks =
                    (case opts of
                       None \<Rightarrow> filter not_ai_pk md
                     | Some co \<Rightarrow> if truthy (explicit_pk co) then md else filter not_ai_pk md)
              in case insert_loop transformToSafeValue_v4 not_ai_pks (for_in save) ([], [], []) of
                   Inl err \<Rightarrow> (Inl err, d1)
                 | Inr (cols, vals, ps) \<Rightarrow>
                     (let sql = ''INSERT INTO '' @ table d1 @ '' ('' @ cols @ '') VALUES ('' @ vals @ '');''
                      in case sqlCommand sql ps d1 of
                           (Inl err, d2) \<Rightarrow> (Inl err, d2)
                         | (Inr results, d2) \<Rightarrow>
                             if js_positive (affectedRows results) \<and> truthy (insertId results)
                                \<and> js_positive (insertId results)
                             then
                               (case List.find (\<lambda>x. autoincrement x = True \<and> pk x = True) md of
                                  Some keyCol \<Rightarrow> (Inr (obj_set save (column keyCol) (insertId results)), d2)
                                | None \<Rightarrow> (Inr save, d2))
                             else (Inr save, d2))))"

definition create_v4 :: "obj \<Rightarrow> create_opts option \<Rightarrow> dao \<Rightarrow> obj promise" where
  "create_v4 save opts d = logged ''create'' (create_v4_body save opts) d"

text \<open>
  \<^verbatim>\<open>_appendOrderByAndLimit\<close> of this revision tests \<^verbatim>\<open>opts.orderBy\<close>, \<^verbatim>\<open>opts.limit\<close> and
  \<^verbatim>\<open>opts.offset\<close> for truthiness, and reads \<^verbatim>\<open>this.metadata.filter\<close>.
\<close>

definition appendOrderByAndLimit_v4 :: "column_meta list \<Rightarrow> string \<Rightarrow> query_opts option \<Rightarrow> string" where
  "appendOrderByAndLimit_v4 md sql opts =
     (let orderBy1 =
            (case opts of
               None \<Rightarrow> []
             | Some qo \<Rightarrow>
                 (case orderBy qo of
                    None \<Rightarrow> []
                  | Some cs \<Rightarrow> if 0 < length cs then order_loop order_term cs 0 '' ORDER BY '' else []));
          limit1 =
            (case opts of
               None \<Rightarrow> []
             | Some qo \<Rightarrow>
                 (if truthy (limit qo) then '' LIMIT '' @ js_toString (limit qo) else '' LIMIT 1000'')
                 @ (if truthy (offset qo) then '' OFFSET '' @ js_toString (offset qo) else []));
          orderBy2 =
            (if orderBy1 = [] then
               (let pks = filter pk md in
                if 0 < length pks then order_loop (\<lambda>c. c @ '' ASC'') (map column pks) 0 (orderBy1 @ '' ORDER BY '')
                else orderBy1)
             else orderBy1)
      in sql @ orderBy2 @ limit1)"

text \<open>
  \<^verbatim>\<open>updateMatching(save, criteria, opts)\<close> of this revision. Its guard is
  \<^verbatim>\<open>!criteria || Object.keys(criteria)===0\<close>: an array never is \<^verbatim>\<open>=== 0\<close>, so only
  a nil \<^verbatim>\<open>criteria\<close> is refused.
\<close>

definition updateMatching_v4_body :: "obj \<Rightarrow> obj option \<Rightarrow> query_opts option \<Rightarrow> dao \<Rightarrow> obj promise" where
  "updateMatching_v4_body save criteria opts d =
     (case criteria of
        None \<Rightarrow> (Inl (Error ''Entire table updates are not permitted.''), d)
      | Some crit \<Rightarrow>
        (let d1 = loadMetadata d
         in case metadata d1 of
              None \<Rightarrow> (Inl (TypeError ''Cannot read properties of null (reading 'filter')''), d1)
            | Some md \<Rightarrow>
                (let sql = ''UPDATE '' @ table d1 @ '' SET '';
                     not_pks = filter (\<lambda>col. pk col = False) md
                 in case sets_loop transformToSafeValue_v4 (options d1) not_pks (for_in save) ([], []) of
                      Inl err \<Rightarrow> (Inl err, d1)
                    | Inr (sets, ps) \<Rightarrow>
                        if sets = [] then (Inl (Error ''No data was provided to update.''), d1)
                        else
                          (let sets1 = sets @ versioning (options d1);
                               sql1 = sql @ sets1;
                               (wh, ps1) = where_loop '' AND '' (for_in crit) ([], ps);
                               sql2 = where_sql sql1 wh;
                               sql3 = appendOrderByAndLimit_v4 md sql2 opts
                           in case sqlCommand sql3 ps1 d1 of
                                (Inl err, d2) \<Rightarrow> (Inl err, d2)
                              | (Inr results, d2) \<Rightarrow>
                                  (Inr (obj_set save ''_affectedRows'' (affectedRows results)), d2)))))"

definition updateMatching_v4 :: "obj \<Rightarrow> obj option \<Rightarrow> query_opts option \<Rightarrow> dao \<Rightarrow> obj promise" where
  "updateMatching_v4 save criteria opts d = logged ''update'' (updateMatching_v4_body save criteria opts) d"

section \<open>A fixture\<close>

text \<open>
  A table of six columns behind a pool that answers every statement, for the concrete
  runs below; a pool that refuses every statement; and a pool that refuses only the
  schema query.
\<close>

definition show_columns_row :: "string \<Rightarrow> string \<Rightarrow> string \<Rightarrow> string \<Rightarrow> string \<Rightarrow> obj" where
  "show_columns_row f t n k e =
     [(''Field'', JStr f), (''Type'', JStr t), (''Null'', JStr n), (''Key'', JStr k),
      (''Default'', JNull), (''Extra'', JStr e)]"

definition sample_columns :: "obj list" where
  "sample_columns =
     [show_columns_row ''id'' ''int(11)'' ''NO'' ''PRI'' ''auto_increment'',
      show_columns_row ''name'' ''varchar(50)'' ''YES'' [] [],
      show_columns_row ''status'' ''varchar(10)'' ''NO'' [] [],
      show_columns_row ''created'' ''timestamp'' ''NO'' [] [],
      show_columns_row ''updated'' ''timestamp'' ''YES'' [] [],
      show_columns_row ''version'' ''int(11)'' ''NO'' [] []]"

definition sample_pool :: pool where
  "sample_pool history sql ps =
     (if startsWith sql ''SHOW COLUMNS'' then Inr (Rows sample_columns)
      else if startsWith sql ''SELECT count'' then Inr (Rows [[(''count'', JNum 3)]])
      else if startsWith sql ''SELECT'' then
        Inr (Rows [[(''id'', JNum 1), (''status'', JStr ''active'')],
                   [(''id'', JNum 2), (''status'', JStr ''active'')]])
      else if startsWith sql ''INSERT'' then Inr (Ack 1 (Some 7))
      else Inr (Ack 1 (Some 0)))"

definition refusing_pool :: pool where
  "refusing_pool history sql ps = Inl (DriverError ''connect ECONNREFUSED'')"

definition schemaless_pool :: pool where
  "schemaless_pool history sql ps =
     (if startsWith sql ''SHOW COLUMNS'' then Inl (DriverError ''connect ECONNREFUSED'')
      else sample_pool history sql ps)"

definition sample_dao :: "pool \<Rightarrow> dao" where
  "sample_dao p = Dao ''t_customer'' ''customer'' None p (\<lambda>v. v)"


section \<open>Vocabulary of the properties\<close>

subsection \<open>Sequences of builder calls\<close>

text \<open>The number of \<^verbatim>\<open>?\<close> placeholders in a piece of SQL text.\<close>

definition count_q :: "string \<Rightarrow> nat" where
  "count_q s = length (filter (\<lambda>c. c = CHR ''?'') s)"

text \<open>A call of \<^verbatim>\<open>and\<close>, \<^verbatim>\<open>or\<close> or \<^verbatim>\<open>where\<close> with its arguments, and a chain of such calls.\<close>

datatype call =
    And string string jsval
  | Or string string jsval
  | Where string string string jsval

fun apply_call :: "call \<Rightarrow> criteria_helper \<Rightarrow> criteria_helper" where
  "apply_call (And name oper v) h = and_call name oper v h"
| "apply_call (Or name oper v) h = or_call name oper v h"
| "apply_call (Where b name oper v) h = where_call b name oper v h"

fun call_value :: "call \<Rightarrow> jsval" where
  "call_value (And name oper v) = v"
| "call_value (Or name oper v) = v"
| "call_value (Where b name oper v) = v"

text \<open>The strings of a call that reach the SQL text as they are.\<close>

fun call_text :: "call \<Rightarrow> string" where
  "call_text (And name oper v) = name @ oper"
| "call_text (Or name oper v) = name @ oper"
| "call_text (Where b name oper v) = b @ name @ oper"

definition no_qmark :: "call \<Rightarrow> bool" where
  "no_qmark c = (CHR ''?'' \<notin> set (call_text c))"

fun run :: "call list \<Rightarrow> criteria_helper \<Rightarrow> criteria_helper" where
  "run [] h = h"
| "run (c # cs) h = run cs (apply_call c h)"

text \<open>
  What each call of a chain adds: the text it appends to the clause and the parameters it
  pushes, read off the builder before and after the call.
\<close>

fun trace :: "call list \<Rightarrow> criteria_helper \<Rightarrow> (string \<times> jsval list) list" where
  "trace [] h = []"
| "trace (c # cs) h =
     (drop (length (whereClause h)) (whereClause (apply_call c h)),
      drop (length (parms h)) (parms (apply_call c h))) # trace cs (apply_call c h)"

text \<open>A chain of five calls: two bind a value with one placeholder, one is unary, one is skipped, one is a membership test.\<close>

definition sample_calls :: "call list" where
  "sample_calls =
     [And ''a'' ''='' (JNum 1), Or ''b'' ''is null'' JUndefined,
      Where ''AND'' ''c'' ''like'' (JStr ''x%''), And ''d'' ''='' JNull,
      Or ''e'' ''in'' (JArr [JNum 1])]"

text \<open>Text with its blanks removed.\<close>

definition squeeze :: "string \<Rightarrow> string" where
  "squeeze s = filter (\<lambda>c. c \<noteq> CHR '' '') s"

subsection \<open>Lists built with a separator\<close>

text \<open>
  The gateway builds every list of SQL terms with
  \<^verbatim>\<open>if (acc !== '') acc += sep; acc += term\<close>. \<open>joined sep ts\<close> is the text this idiom
  leaves after the terms \<open>ts\<close>, from the empty text.
\<close>

definition sep_append :: "string \<Rightarrow> string \<Rightarrow> string \<Rightarrow> string" where
  "sep_append sep acc t = (if acc \<noteq> [] then acc @ sep else acc) @ t"

definition joined :: "string \<Rightarrow> string list \<Rightarrow> string" where
  "joined sep ts = foldl (sep_append sep) [] ts"


subsection \<open>Columns of a statement\<close>

text \<open>
  The flags that \<^verbatim>\<open>fetchMetadata\<close> computes for a column: it is flagged when one of the
  three role flags is set, and the flags agree with the options when each is the
  comparison of the column's name with the configured name.
\<close>

definition flagged :: "column_meta \<Rightarrow> bool" where
  "flagged c = (is_created_timestamp c \<or> is_updated_timestamp c \<or> is_updated_version c)"

definition flags_agree :: "dao_options \<Rightarrow> column_meta \<Rightarrow> bool" where
  "flags_agree opts c =
     (is_updated_timestamp c =
        (\<not> isNil (updated_timestamp_column opts) \<and> JStr (column c) = updated_timestamp_column opts)
      \<and> is_created_timestamp c =
        (\<not> isNil (created_timestamp_column opts) \<and> JStr (column c) = created_timestamp_column opts)
      \<and> is_updated_version c =
        (\<not> isNil (version_number_column opts) \<and> JStr (column c) = version_number_column opts))"

fun is_string :: "jsval \<Rightarrow> bool" where
  "is_string (JStr s) = True"
| "is_string _ = False"

text \<open>The property names among the keys that a walk sees.\<close>

definition names :: "(jsval \<times> jsval) list \<Rightarrow> string list" where
  "names visits = concat (map (\<lambda>(k, v). case k of JStr s \<Rightarrow> [s] | _ \<Rightarrow> []) visits)"

text \<open>
  The properties of \<open>save\<close>, in the order \<^verbatim>\<open>_.each\<close> sees them, for which
  \<^verbatim>\<open>update\<close> writes a \<^verbatim>\<open>column=?\<close> term: those that name a column of \<open>not_pks\<close>
  which is not one of the configured three.
\<close>

definition set_terms :: "dao_options \<Rightarrow> column_meta list \<Rightarrow> string list \<Rightarrow> string list" where
  "set_terms opts not_pks ks =
     filter (\<lambda>k. case List.find (\<lambda>c. column c = k) not_pks of
                    None \<Rightarrow> False | Some col \<Rightarrow> \<not> driven opts col) ks"

definition set_columns :: "dao_options \<Rightarrow> column_meta list \<Rightarrow> obj \<Rightarrow> string list" where
  "set_columns opts not_pks save = set_terms opts not_pks (names (lodash_each save))"

text \<open>
  What \<^verbatim>\<open>create\<close> takes from a walk of the entity: for each pair whose key names an
  eligible column, in order, that column and the value.
\<close>

definition insert_pairs :: "column_meta list \<Rightarrow> (jsval \<times> jsval) list \<Rightarrow> (column_meta \<times> jsval) list" where
  "insert_pairs eligible visits =
     concat (map (\<lambda>(k, v). case List.find (\<lambda>c. JStr (column c) = k) eligible of
                                None \<Rightarrow> [] | Some col \<Rightarrow> [(col, v)]) visits)"

text \<open>The values of a list of results, or the first error among them.\<close>

fun all_safe :: "(js_error + 'a) list \<Rightarrow> js_error + 'a list" where
  "all_safe [] = Inr []"
| "all_safe (Inl e # rs) = Inl e"
| "all_safe (Inr v # rs) = (case all_safe rs of Inl e \<Rightarrow> Inl e | Inr vs \<Rightarrow> Inr (v # vs))"

text \<open>The parameters of the INSERT: the transformed values of the pairs, unless a value is refused.\<close>

definition insert_parms ::
  "(jsval \<Rightarrow> column_meta \<Rightarrow> js_error + jsval) \<Rightarrow> (column_meta \<times> jsval) list \<Rightarrow> js_error + jsval list" where
  "insert_parms tr pairs = all_safe (map (\<lambda>(col, v). tr v col) pairs)"

text \<open>The text of the INSERT for a list of column names.\<close>

definition insert_sql :: "string \<Rightarrow> string list \<Rightarrow> string" where
  "insert_sql tbl cols =
     ''INSERT INTO '' @ tbl @ '' ('' @ joined '', '' cols @ '') VALUES (''
       @ joined '', '' (map (\<lambda>c. ''?'') cols) @ '');''"


text \<open>The caller asks \<^verbatim>\<open>create\<close> to take primary keys from the entity.\<close>

definition override :: "create_opts option \<Rightarrow> bool" where
  "override opts = (case opts of None \<Rightarrow> False | Some co \<Rightarrow> truthy (explicit_pk co))"

text \<open>The options object \<^verbatim>\<open>{}\<close>.\<close>

definition no_opts :: query_opts where
  "no_opts = \<lparr> columns = None, orderBy = None, limit = JUndefined, offset = JUndefined,
               booleanMode = JUndefined \<rparr>"


section \<open>Properties of the criteria builder\<close>

lemmas builder_defs = and_call_def or_call_def where_call_def private_where_def
  CriteriaHelper_def js_or_def js_and_def toUpperCase_def upper_char_def char_of_eq_iff
  unary_def isEmpty_def endsWith_def startsWith_def andGroup_def orGroup_def groupEnd_def

lemma count_q_Nil [simp]: "count_q [] = 0"
  by (simp add: count_q_def)

lemma count_q_Cons [simp]: "count_q (c # s) = (if c = CHR ''?'' then 1 else 0) + count_q s"
  by (simp add: count_q_def)

lemma count_q_append [simp]: "count_q (a @ b) = count_q a + count_q b"
  by (simp add: count_q_def)

lemma count_q_notin: "CHR ''?'' \<notin> set s \<Longrightarrow> count_q s = 0"
  by (induction s) (auto simp: count_q_def)

lemma upper_char_q: "upper_char c = CHR ''?'' \<longleftrightarrow> c = CHR ''?''"
  unfolding upper_char_def Let_def
  by (auto simp: char_of_eq_iff take_bit_eq_mod)

lemma count_q_toUpperCase [simp]: "count_q (toUpperCase s) = count_q s"
  by (induction s) (auto simp: count_q_def toUpperCase_def upper_char_q)

lemma isNil_not_truthy: "isNil v \<Longrightarrow> \<not> truthy v"
  by (cases v) simp_all

subsection \<open>One call\<close>

lemma private_where_appends:
  "\<exists>t ps. whereClause (private_where b name oper v h) = whereClause h @ t
        \<and> parms (private_where b name oper v h) = parms h @ ps
        \<and> (ps = [] \<or> ps = [v])"
  by (simp add: private_where_def Let_def)

lemma private_where_count:
  assumes "CHR ''?'' \<notin> set b" "CHR ''?'' \<notin> set name" "CHR ''?'' \<notin> set oper"
  shows "count_q (whereClause (private_where b name oper v h)) + length (parms h)
       = count_q (whereClause h) + length (parms (private_where b name oper v h))"
  using assms by (simp add: private_where_def Let_def count_q_notin)

lemma apply_call_appends:
  "\<exists>t ps. whereClause (apply_call c h) = whereClause h @ t
        \<and> parms (apply_call c h) = parms h @ ps \<and> (ps = [] \<or> ps = [call_value c])"
proof (cases c)
  case (And n oper v)
  then show ?thesis using private_where_appends [of "''AND''" n oper v h] by (simp add: and_call_def)
next
  case (Or n oper v)
  then show ?thesis using private_where_appends [of "''OR''" n oper v h] by (simp add: or_call_def)
next
  case (Where b n oper v)
  then show ?thesis using private_where_appends [of b n oper v h] by (simp add: where_call_def)
qed

lemma apply_call_count:
  "no_qmark c \<Longrightarrow> count_q (whereClause (apply_call c h)) + length (parms h)
       = count_q (whereClause h) + length (parms (apply_call c h))"
  by (cases c) (simp_all add: no_qmark_def and_call_def or_call_def where_call_def private_where_count)

subsection \<open>Chains of calls\<close>

lemma run_trace:
  "whereClause (run cs h) = whereClause h @ concat (map fst (trace cs h))
   \<and> parms (run cs h) = parms h @ concat (map snd (trace cs h))"
proof (induction cs arbitrary: h)
  case Nil
  show ?case by simp
next
  case (Cons c cs)
  obtain t ps where "whereClause (apply_call c h) = whereClause h @ t"
    "parms (apply_call c h) = parms h @ ps"
    using apply_call_appends by blast
  with Cons.IH [of "apply_call c h"] show ?case by simp
qed

lemma trace_aligned:
  "\<forall>c \<in> set cs. no_qmark c \<Longrightarrow>
   list_all2 (\<lambda>c (t, ps). count_q t = length ps \<and> (ps = [] \<or> ps = [call_value c])) cs (trace cs h)"
proof (induction cs arbitrary: h)
  case Nil
  show ?case by simp
next
  case (Cons c cs)
  obtain t ps where a: "whereClause (apply_call c h) = whereClause h @ t"
    "parms (apply_call c h) = parms h @ ps" "ps = [] \<or> ps = [call_value c]"
    using apply_call_appends by blast
  have "no_qmark c" using Cons.prems by simp
  from apply_call_count [OF this, of h] a have "count_q t = length ps" by simp
  with a Cons show ?case by simp
qed

lemma aligned_count:
  "list_all2 (\<lambda>c (t, ps). count_q t = length ps \<and> (ps = [] \<or> ps = [call_value c])) cs tr \<Longrightarrow>
   count_q (concat (map fst tr)) = length (concat (map snd tr))"
  by (induction cs tr rule: list_all2_induct) auto

text \<open>
  C1, as amended. For every chain of \<^verbatim>\<open>and\<close>/\<^verbatim>\<open>or\<close>/\<^verbatim>\<open>where\<close> calls on a new
  builder whose connectives, column names and operators contain no \<^verbatim>\<open>?\<close>, the number
  of \<^verbatim>\<open>?\<close> placeholders in the clause equals the length of the parameter array. The
  order matches: the clause is the concatenation of the texts the calls appended, the
  parameter array is the concatenation of the parameters they pushed, and call by call
  the text holds as many placeholders as the call pushed parameters (none, or the value
  of that call).
\<close>

theorem placeholders_match_parms:
  assumes "\<forall>c \<in> set cs. no_qmark c"
  shows "count_q (whereClause (run cs (CriteriaHelper opts))) = length (parms (run cs (CriteriaHelper opts)))
     \<and> whereClause (run cs (CriteriaHelper opts)) = concat (map fst (trace cs (CriteriaHelper opts)))
     \<and> parms (run cs (CriteriaHelper opts)) = concat (map snd (trace cs (CriteriaHelper opts)))
     \<and> list_all2 (\<lambda>c (t, ps). count_q t = length ps \<and> (ps = [] \<or> ps = [call_value c]))
          cs (trace cs (CriteriaHelper opts))"
proof -
  let ?h = "CriteriaHelper opts"
  have e: "whereClause ?h = []" "parms ?h = []" by (simp_all add: CriteriaHelper_def)
  have al: "list_all2 (\<lambda>c (t, ps). count_q t = length ps \<and> (ps = [] \<or> ps = [call_value c]))
          cs (trace cs ?h)" using assms by (rule trace_aligned)
  from run_trace [of cs ?h] e aligned_count [OF al] al show ?thesis by simp
qed

theorem placeholders_match_parms_witness:
  "list_all no_qmark sample_calls
   \<and> whereClause (run sample_calls (CriteriaHelper JUndefined)) = ''a =? OR b IS NULL AND c LIKE ? OR e IN(?)''
   \<and> count_q (whereClause (run sample_calls (CriteriaHelper JUndefined))) = 3
   \<and> length (parms (run sample_calls (CriteriaHelper JUndefined))) = 3
   \<and> parms (run sample_calls (CriteriaHelper JUndefined)) = [JNum 1, JStr ''x%'', JArr [JNum 1]]"
  using placeholders_match_parms [of sample_calls JUndefined]
  by (simp add: sample_calls_def no_qmark_def builder_defs)

text \<open>
  C1 as stated fails: a column name may itself contain \<^verbatim>\<open>?\<close>, and it reaches the clause
  as it is. After \<^verbatim>\<open>and('a?', '=', 1)\<close> the clause \<^verbatim>\<open>a? =?\<close> holds two question marks
  for one parameter.
\<close>

theorem placeholders_counterexample:
  "count_q (whereClause (run [And ''a?'' ''='' (JNum 1)] (CriteriaHelper JUndefined))) = 2
   \<and> length (parms (run [And ''a?'' ''='' (JNum 1)] (CriteriaHelper JUndefined))) = 1"
  by (simp add: builder_defs)

text \<open>
  C4. On a builder with the default configuration (both omit flags \<^verbatim>\<open>true\<close>),
  \<^verbatim>\<open>and(name, oper, value)\<close> with a binary operator returns the builder unchanged when the
  value is \<^verbatim>\<open>undefined\<close>, \<^verbatim>\<open>null\<close> or the empty string; \<^verbatim>\<open>and(name, '=', 0)\<close>
  appends one predicate, with one placeholder, and pushes the one parameter 0.
\<close>

theorem default_skip_policy:
  assumes "omitNull h = JBool True" and "omitEmpty h = JBool True"
    and "\<not> unary (toUpperCase oper)"
  shows "and_call name oper JUndefined h = h
     \<and> and_call name oper JNull h = h
     \<and> and_call name oper (JStr []) h = h
     \<and> parms (and_call name ''='' (JNum 0) h) = parms h @ [JNum 0]
     \<and> whereClause (and_call name ''='' (JNum 0) h) =
           whereClause h
           @ (if whereClause h = [] \<or> endsWith (whereClause h) ''('' then [] else '' AND '')
           @ name @ '' =?''"
  using assms by (simp add: and_call_def private_where_def isEmpty_def Let_def unary_def
      toUpperCase_def upper_char_def char_of_eq_iff startsWith_def)

theorem default_skip_policy_witness:
  "omitNull (CriteriaHelper JUndefined) = JBool True
   \<and> omitEmpty (CriteriaHelper JUndefined) = JBool True
   \<and> \<not> unary (toUpperCase ''='')
   \<and> and_call ''x'' ''='' JNull (CriteriaHelper JUndefined) = CriteriaHelper JUndefined
   \<and> and_call ''x'' ''='' (JStr []) (CriteriaHelper JUndefined) = CriteriaHelper JUndefined
   \<and> parms (and_call ''x'' ''='' (JNum 0) (CriteriaHelper JUndefined)) = [JNum 0]
   \<and> whereClause (and_call ''x'' ''='' (JNum 0) (CriteriaHelper JUndefined)) = ''x =?''"
  using default_skip_policy [of "CriteriaHelper JUndefined" "''=''" "''x''"]
  by (simp add: builder_defs)

text \<open>
  C7, as amended. \<^verbatim>\<open>andGroup()\<close> and \<^verbatim>\<open>orGroup()\<close> append \<^verbatim>\<open> (\<close> without a connective
  when the clause is empty or ends with an opening parenthesis, and \<^verbatim>\<open> AND (\<close> or
  \<^verbatim>\<open> OR (\<close> otherwise. The chain
  \<^verbatim>\<open>andGroup(); or('a','=',1); or('b','=',2); groupEnd()\<close> leaves the clause
  \<^verbatim>\<open> (a =? OR b =? ) \<close>, which is \<^verbatim>\<open>(a=? OR b=?)\<close> up to blanks, with parameters [1, 2];
  after \<^verbatim>\<open>and('x','=',5)\<close> the same chain leaves \<^verbatim>\<open>x =? AND (a =? OR b =? ) \<close> with
  parameters [5, 1, 2].
\<close>

theorem groups_render:
  "whereClause (andGroup h) =
     whereClause h @ (if whereClause h = [] \<or> endsWith (whereClause h) ''('' then '' ('' else '' AND ('')
   \<and> whereClause (orGroup h) =
     whereClause h @ (if whereClause h = [] \<or> endsWith (whereClause h) ''('' then '' ('' else '' OR ('')
   \<and> parms (andGroup h) = parms h \<and> parms (orGroup h) = parms h
   \<and> whereClause (groupEnd (or_call ''b'' ''='' (JNum 2) (or_call ''a'' ''='' (JNum 1)
        (andGroup (CriteriaHelper opts))))) = '' (a =? OR b =? ) ''
   \<and> squeeze '' (a =? OR b =? ) '' = squeeze ''(a=? OR b=?)''
   \<and> parms (groupEnd (or_call ''b'' ''='' (JNum 2) (or_call ''a'' ''='' (JNum 1)
        (andGroup (CriteriaHelper opts))))) = [JNum 1, JNum 2]
   \<and> whereClause (groupEnd (or_call ''b'' ''='' (JNum 2) (or_call ''a'' ''='' (JNum 1)
        (andGroup (and_call ''x'' ''='' (JNum 5) (CriteriaHelper opts)))))) = ''x =? AND (a =? OR b =? ) ''
   \<and> parms (groupEnd (or_call ''b'' ''='' (JNum 2) (or_call ''a'' ''='' (JNum 1)
        (andGroup (and_call ''x'' ''='' (JNum 5) (CriteriaHelper opts)))))) = [JNum 5, JNum 1, JNum 2]"
  by (simp add: builder_defs squeeze_def)

theorem groups_render_witness:
  "whereClause (andGroup (andGroup (CriteriaHelper JUndefined))) = '' ( (''
   \<and> whereClause (orGroup (and_call ''x'' ''='' (JNum 5) (CriteriaHelper JUndefined))) = ''x =? OR (''"
  using groups_render [of "andGroup (CriteriaHelper JUndefined)" JUndefined]
    groups_render [of "and_call ''x'' ''='' (JNum 5) (CriteriaHelper JUndefined)" JUndefined]
  by (simp add: builder_defs)

text \<open>
  C7 as stated fails on the text: the rendered clause is not \<^verbatim>\<open>(a=? OR b=?)\<close>; it
  carries the blanks that \<^verbatim>\<open>andGroup\<close>, \<^verbatim>\<open>_where\<close> and \<^verbatim>\<open>groupEnd\<close> write.
\<close>

theorem groups_render_counterexample:
  "whereClause (groupEnd (or_call ''b'' ''='' (JNum 2) (or_call ''a'' ''='' (JNum 1)
        (andGroup (CriteriaHelper JUndefined))))) \<noteq> ''(a=? OR b=?)''"
  by (simp add: builder_defs)

text \<open>
  C9, as amended. Whatever options object the constructor receives, \<^verbatim>\<open>omitNull\<close> and
  \<^verbatim>\<open>omitEmpty\<close> are truthy: each is \<^verbatim>\<open>true\<close>, or the truthy value given for
  \<^verbatim>\<open>omitIfNull\<close> / \<^verbatim>\<open>omitIfEmpty\<close>; it is \<^verbatim>\<open>true\<close> whenever the option is absent, nil or
  a boolean. So no options object switches the skip policy off: a binary clause with a
  \<^verbatim>\<open>null\<close> or an empty-string value is always dropped.
\<close>

theorem skip_policy_always_on:
  "truthy (omitNull (CriteriaHelper opts)) \<and> truthy (omitEmpty (CriteriaHelper opts))
   \<and> (omitNull (CriteriaHelper opts) = JBool True
        \<or> omitNull (CriteriaHelper opts) = js_prop opts ''omitIfNull'')
   \<and> (omitEmpty (CriteriaHelper opts) = JBool True
        \<or> omitEmpty (CriteriaHelper opts) = js_prop opts ''omitIfEmpty'')
   \<and> ((\<exists>b. js_prop opts ''omitIfNull'' = JBool b) \<or> isNil (js_prop opts ''omitIfNull'')
        \<longrightarrow> omitNull (CriteriaHelper opts) = JBool True)
   \<and> ((\<exists>b. js_prop opts ''omitIfEmpty'' = JBool b) \<or> isNil (js_prop opts ''omitIfEmpty'')
        \<longrightarrow> omitEmpty (CriteriaHelper opts) = JBool True)
   \<and> (\<not> unary (toUpperCase oper) \<longrightarrow>
        private_where b name oper JNull (CriteriaHelper opts) = CriteriaHelper opts
        \<and> private_where b name oper (JStr []) (CriteriaHelper opts) = CriteriaHelper opts)"
proof -
  have t: "truthy (omitNull (CriteriaHelper opts))" "truthy (omitEmpty (CriteriaHelper opts))"
    by (simp_all add: CriteriaHelper_def js_or_def js_and_def)
  have v: "(omitNull (CriteriaHelper opts) = JBool True
        \<or> omitNull (CriteriaHelper opts) = js_prop opts ''omitIfNull'')
   \<and> (omitEmpty (CriteriaHelper opts) = JBool True
        \<or> omitEmpty (CriteriaHelper opts) = js_prop opts ''omitIfEmpty'')
   \<and> ((\<exists>b. js_prop opts ''omitIfNull'' = JBool b) \<or> isNil (js_prop opts ''omitIfNull'')
        \<longrightarrow> omitNull (CriteriaHelper opts) = JBool True)
   \<and> ((\<exists>b. js_prop opts ''omitIfEmpty'' = JBool b) \<or> isNil (js_prop opts ''omitIfEmpty'')
        \<longrightarrow> omitEmpty (CriteriaHelper opts) = JBool True)"
    by (auto simp: CriteriaHelper_def js_or_def js_and_def dest: isNil_not_truthy)
  have s: "\<not> unary (toUpperCase oper) \<longrightarrow>
        private_where b name oper JNull (CriteriaHelper opts) = CriteriaHelper opts
        \<and> private_where b name oper (JStr []) (CriteriaHelper opts) = CriteriaHelper opts"
    using t by (simp add: private_where_def Let_def isEmpty_def)
  from t v s show ?thesis by blast
qed

theorem skip_policy_always_on_witness:
  "omitNull (CriteriaHelper (JObj [(''omitIfNull'', JBool False), (''omitIfEmpty'', JBool False)])) = JBool True
   \<and> omitEmpty (CriteriaHelper (JObj [(''omitIfNull'', JBool False), (''omitIfEmpty'', JBool False)])) = JBool True
   \<and> \<not> unary (toUpperCase ''='')
   \<and> whereClause (private_where ''AND'' ''x'' ''='' JNull
        (CriteriaHelper (JObj [(''omitIfNull'', JBool False), (''omitIfEmpty'', JBool False)]))) = []"
  using skip_policy_always_on [of "JObj [(''omitIfNull'', JBool False), (''omitIfEmpty'', JBool False)]"
      "''=''" "''AND''" "''x''"]
  by (simp add: builder_defs)

text \<open>
  C9 as stated fails on the value: the option \<^verbatim>\<open>{omitIfNull: 'yes'}\<close> leaves
  \<^verbatim>\<open>omitNull\<close> equal to the string \<^verbatim>\<open>'yes'\<close>, which is truthy and is not \<^verbatim>\<open>true\<close>.
\<close>

theorem skip_policy_counterexample:
  "omitNull (CriteriaHelper (JObj [(''omitIfNull'', JStr ''yes'')])) = JStr ''yes''
   \<and> omitNull (CriteriaHelper (JObj [(''omitIfNull'', JStr ''yes'')])) \<noteq> JBool True"
  by (simp add: CriteriaHelper_def js_or_def js_and_def)


section \<open>Properties of the table gateway\<close>

lemmas fixture_defs = sample_dao_def Dao_def sample_pool_def schemaless_pool_def refusing_pool_def
  sample_columns_def show_columns_row_def default_options_def no_opts_def

subsection \<open>The frame and the metadata\<close>

lemma logged_issued: "issued (snd (logged name body d)) = issued (snd (body d))"
  by (simp add: logged_def split: prod.splits sum.splits)

lemma logged_fst: "fst (logged name body d) = fst (body d)"
  by (simp add: logged_def split: prod.splits sum.splits)

lemma logged_rethrows:
  "body d = (Inl err, d1) \<Longrightarrow>
   logged name body d =
     (Inl err, d1\<lparr>console := console d1 @ [entity d1 @ '' '' @ name @ '' error. Details: '' @ message err]\<rparr>)"
  by (simp add: logged_def)

lemma fetchMetadata_fields [simp]:
  "pool (fetchMetadata d) = pool d" "table (fetchMetadata d) = table d"
  "entity (fetchMetadata d) = entity d" "options (fetchMetadata d) = options d"
  "moment_format (fetchMetadata d) = moment_format d"
  by (auto simp: fetchMetadata_def sqlCommand_def split: option.splits sum.splits dbresult.splits)

lemma loadMetadata_fields [simp]:
  "pool (loadMetadata d) = pool d" "table (loadMetadata d) = table d"
  "entity (loadMetadata d) = entity d" "options (loadMetadata d) = options d"
  "moment_format (loadMetadata d) = moment_format d"
  by (auto simp: loadMetadata_def sqlCommand_def split: option.splits sum.splits dbresult.splits)

lemma loadMetadata_is_fetchMetadata: "loadMetadata d = fetchMetadata d"
  by (simp add: loadMetadata_def fetchMetadata_def)

text \<open>Once loaded, the metadata is not fetched again.\<close>

lemma fetchMetadata_loaded: "metadata d = Some m \<Longrightarrow> fetchMetadata d = d"
  by (simp add: fetchMetadata_def)

lemma fetchMetadata_issued:
  "issued (fetchMetadata d) =
     (case metadata d of
        Some m \<Rightarrow> issued d
      | None \<Rightarrow> issued d @ [(''SHOW COLUMNS FROM '' @ table d @ '';'', [])])"
  by (auto simp: fetchMetadata_def sqlCommand_def split: option.splits sum.splits dbresult.splits)

text \<open>
  A schema query that the pool refuses leaves a line on the console and the metadata
  unloaded; nothing is thrown.
\<close>

lemma fetchMetadata_swallows:
  "metadata d = None \<Longrightarrow> pool d (issued d) (''SHOW COLUMNS FROM '' @ table d @ '';'') [] = Inl err \<Longrightarrow>
   fetchMetadata d =
     d\<lparr>issued := issued d @ [(''SHOW COLUMNS FROM '' @ table d @ '';'', [])],
       console := console d @ [''Error. '' @ message err]\<rparr>"
  by (simp add: fetchMetadata_def sqlCommand_def)

text \<open>The flags of freshly fetched metadata agree with the options, the column names being strings.\<close>

lemma column_of_row_flags:
  "is_string (js_prop (JObj item) ''Field'') \<Longrightarrow> flags_agree opts (column_of_row opts item)"
  by (cases "js_prop (JObj item) ''Field''") (auto simp: flags_agree_def column_of_row_def)

lemma fetchMetadata_flags_agree:
  assumes "metadata d = None"
    and "pool d (issued d) (''SHOW COLUMNS FROM '' @ table d @ '';'') [] = Inr (Rows rs)"
    and "\<forall>r \<in> set rs. is_string (js_prop (JObj r) ''Field'')"
  shows "\<forall>c \<in> set (columns_of (fetchMetadata d)). flags_agree (options d) c"
  using assms by (auto simp: fetchMetadata_def sqlCommand_def columns_of_def column_of_row_flags)

subsection \<open>Separated lists\<close>

lemma joined_Nil [simp]: "joined sep [] = []"
  by (simp add: joined_def)

lemma foldl_sep_append_join:
  "\<forall>t \<in> set ts. t \<noteq> [] \<Longrightarrow>
   foldl (sep_append sep) acc ts =
     (if ts = [] then acc else if acc = [] then join sep ts else acc @ sep @ join sep ts)"
proof (induction ts arbitrary: acc)
  case Nil
  show ?case by simp
next
  case (Cons t ts)
  then have t: "t \<noteq> []" and rest: "\<forall>t \<in> set ts. t \<noteq> []" by simp_all
  show ?case
  proof (cases ts)
    case Nil
    then show ?thesis by (simp add: sep_append_def)
  next
    case (Cons u us)
    with Cons.IH [OF rest, of "sep_append sep acc t"] t show ?thesis
      by (simp add: sep_append_def)
  qed
qed

text \<open>On terms that are not empty, the idiom is the usual join.\<close>

lemma joined_join: "\<forall>t \<in> set ts. t \<noteq> [] \<Longrightarrow> joined sep ts = join sep ts"
  by (simp add: joined_def foldl_sep_append_join)

lemma order_loop_join:
  "order_loop f xs i acc = acc @ (if 0 < i \<and> xs \<noteq> [] then '', '' else []) @ join '', '' (map f xs)"
proof (induction xs arbitrary: i acc)
  case Nil
  show ?case by simp
next
  case (Cons x xs)
  have "order_loop f (x # xs) i acc =
          ((if 0 < i then acc @ '', '' else acc) @ f x) @ (if xs \<noteq> [] then '', '' else []) @ join '', '' (map f xs)"
    by (simp add: Cons.IH)
  also have "\<dots> = acc @ (if 0 < i \<and> x # xs \<noteq> [] then '', '' else []) @ join '', '' (map f (x # xs))"
    by (cases xs) simp_all
  finally show ?case .
qed

subsection \<open>ORDER BY and LIMIT\<close>

text \<open>
  With an options object that names neither order, limit nor offset, the statement ends
  with the primary keys ascending and \<^verbatim>\<open>LIMIT 1000\<close>; with the options omitted, the same
  ORDER BY is the end of the statement and no LIMIT follows.
\<close>

lemma appendOrderByAndLimit_defaults:
  assumes "orderBy qo = None" "isNil (limit qo)" "isNil (offset qo)"
  shows "appendOrderByAndLimit d sql (Some qo) =
     sql @ (if filter pk (columns_of d) = [] then []
            else '' ORDER BY '' @ join '', '' (map (\<lambda>c. column c @ '' ASC'') (filter pk (columns_of d))))
         @ '' LIMIT 1000''"
  using assms by (simp add: appendOrderByAndLimit_def Let_def order_loop_join comp_def)

lemma appendOrderByAndLimit_omitted:
  "appendOrderByAndLimit d sql None =
     sql @ (if filter pk (columns_of d) = [] then []
            else '' ORDER BY '' @ join '', '' (map (\<lambda>c. column c @ '' ASC'') (filter pk (columns_of d))))"
  by (simp add: appendOrderByAndLimit_def Let_def order_loop_join comp_def)

text \<open>
  The one statement of \<^verbatim>\<open>find\<close>, for every gateway, filter and options, and what it
  is with the options omitted and with an options object that names no order, limit or offset.
\<close>

lemma find_statement:
  "issued (snd (find query opts d)) =
     issued (fetchMetadata d) @
       [(appendOrderByAndLimit (fetchMetadata d)
           (where_sql (''SELECT '' @ whichcols opts @ '' FROM '' @ table d @ '' '')
              (fst (where_loop (boolean_mode opts) (lodash_each query) ([], []))))
           opts,
         snd (where_loop (boolean_mode opts) (lodash_each query) ([], [])))]"
  by (simp add: find_def find_body_def logged_issued sqlCommand_def Let_def split: prod.splits)

lemma find_omitted_options:
  "issued (snd (find query None d)) =
     issued (fetchMetadata d) @
       [(where_sql (''SELECT * FROM '' @ table d @ '' '') (fst (where_loop '' AND '' (lodash_each query) ([], [])))
           @ (if filter pk (columns_of (fetchMetadata d)) = [] then []
              else '' ORDER BY ''
                   @ join '', '' (map (\<lambda>c. column c @ '' ASC'') (filter pk (columns_of (fetchMetadata d))))),
         snd (where_loop '' AND '' (lodash_each query) ([], [])))]"
  by (simp add: find_statement appendOrderByAndLimit_omitted whichcols_def boolean_mode_def)

lemma find_default_options:
  assumes "orderBy qo = None" "isNil (limit qo)" "isNil (offset qo)"
  shows "issued (snd (find query (Some qo) d)) =
     issued (fetchMetadata d) @
       [(where_sql (''SELECT '' @ whichcols (Some qo) @ '' FROM '' @ table d @ '' '')
              (fst (where_loop (boolean_mode (Some qo)) (lodash_each query) ([], [])))
           @ (if filter pk (columns_of (fetchMetadata d)) = [] then []
              else '' ORDER BY ''
                   @ join '', '' (map (\<lambda>c. column c @ '' ASC'') (filter pk (columns_of (fetchMetadata d)))))
           @ '' LIMIT 1000'',
         snd (where_loop (boolean_mode (Some qo)) (lodash_each query) ([], [])))]"
  using assms by (simp add: find_statement appendOrderByAndLimit_defaults)

lemmas find_defs = find_def find_body_def count_def count_body_def logged_def fetchMetadata_def
  sqlCommand_def column_of_row_def whichcols_def boolean_mode_def where_sql_def
  appendOrderByAndLimit_def columns_of_def startsWith_def lodash_each_def for_in_def

text \<open>
  C2, evaluated where it fails. \<^verbatim>\<open>find({status: 'active'})\<close> and
  \<^verbatim>\<open>count({status: 'active'})\<close>, the options omitted, on a new gateway over the fixture:
  the statement handed to the pool ends with \<^verbatim>\<open>ORDER BY id ASC\<close> and carries no LIMIT.
  The same calls with the options object \<^verbatim>\<open>{}\<close> end with \<^verbatim>\<open>ORDER BY id ASC LIMIT 1000\<close>.
\<close>

theorem find_without_options_has_no_limit:
  "issued (snd (find [(''status'', JStr ''active'')] None (sample_dao sample_pool))) =
     [(''SHOW COLUMNS FROM t_customer;'', []),
      (''SELECT * FROM t_customer  WHERE status=? ORDER BY id ASC'', [JStr ''active''])]
   \<and> issued (snd (count [(''status'', JStr ''active'')] None (sample_dao sample_pool))) =
     [(''SHOW COLUMNS FROM t_customer;'', []),
      (''SELECT count(*) as count FROM t_customer  WHERE status=? ORDER BY id ASC'', [JStr ''active''])]
   \<and> issued (snd (find [(''status'', JStr ''active'')] (Some no_opts) (sample_dao sample_pool))) =
     [(''SHOW COLUMNS FROM t_customer;'', []),
      (''SELECT * FROM t_customer  WHERE status=? ORDER BY id ASC LIMIT 1000'', [JStr ''active''])]
   \<and> issued (snd (count [(''status'', JStr ''active'')] (Some no_opts) (sample_dao sample_pool))) =
     [(''SHOW COLUMNS FROM t_customer;'', []),
      (''SELECT count(*) as count FROM t_customer  WHERE status=? ORDER BY id ASC LIMIT 1000'', [JStr ''active''])]"
  by (simp add: fixture_defs find_defs)

subsection \<open>Driver errors\<close>

text \<open>An operation whose own statement the pool refuses rejects with that error, after a line on the console.\<close>

lemma find_rejects_own_failure:
  "find_body query opts d = (Inl err, d1) \<Longrightarrow>
   find query opts d =
     (Inl err, d1\<lparr>console := console d1 @ [entity d1 @ '' find error. Details: '' @ message err]\<rparr>)"
  by (simp add: find_def logged_rethrows)

text \<open>
  But a schema query that the pool refuses does not stop \<^verbatim>\<open>find\<close>: when the pool
  answers the SELECT that follows, \<^verbatim>\<open>find\<close> fulfils with its rows.
\<close>

lemma find_after_failed_schema_query:
  assumes "metadata d = None"
    and "pool d (issued d) (''SHOW COLUMNS FROM '' @ table d @ '';'') [] = Inl err"
    and "d1 = d\<lparr>issued := issued d @ [(''SHOW COLUMNS FROM '' @ table d @ '';'', [])],
                 console := console d @ [''Error. '' @ message err]\<rparr>"
    and "sql = appendOrderByAndLimit d1
           (where_sql (''SELECT '' @ whichcols opts @ '' FROM '' @ table d @ '' '')
              (fst (where_loop (boolean_mode opts) (lodash_each query) ([], []))))
           opts"
    and "ps = snd (where_loop (boolean_mode opts) (lodash_each query) ([], []))"
    and "pool d (issued d1) sql ps = Inr rows"
  shows "find query opts d = (Inr rows, d1\<lparr>issued := issued d1 @ [(sql, ps)]\<rparr>)"
proof -
  have f: "fetchMetadata d = d1" using assms(1,2,3) by (simp add: fetchMetadata_swallows)
  have p: "pool d1 = pool d" "table d1 = table d" using assms(3) by simp_all
  show ?thesis
    using assms(4,5,6) p
    by (simp add: find_def find_body_def logged_def f sqlCommand_def Let_def case_prod_beta)
qed

text \<open>
  C8, evaluated where it fails. On a new gateway whose pool refuses the schema query
  with a driver error and answers everything else, \<^verbatim>\<open>find({status: 'active'})\<close> does not
  reject: \<^verbatim>\<open>fetchMetadata\<close> has written the error to the console and gone on, the
  SELECT is issued without ORDER BY, and the promise fulfils with the rows. With a pool
  that refuses every statement, the same call rejects with the driver error of the SELECT.
\<close>

theorem find_survives_failed_schema_query:
  "find [(''status'', JStr ''active'')] None (sample_dao schemaless_pool) =
     (Inr (Rows [[(''id'', JNum 1), (''status'', JStr ''active'')],
                 [(''id'', JNum 2), (''status'', JStr ''active'')]]),
      (sample_dao schemaless_pool)
        \<lparr>issued := [(''SHOW COLUMNS FROM t_customer;'', []),
                    (''SELECT * FROM t_customer  WHERE status=?'', [JStr ''active''])],
         console := [''Error. connect ECONNREFUSED'']\<rparr>)
   \<and> find [(''status'', JStr ''active'')] None (sample_dao refusing_pool) =
     (Inl (DriverError ''connect ECONNREFUSED''),
      (sample_dao refusing_pool)
        \<lparr>issued := [(''SHOW COLUMNS FROM t_customer;'', []),
                    (''SELECT * FROM t_customer  WHERE status=?'', [JStr ''active''])],
         console := [''Error. connect ECONNREFUSED'',
                     ''customer find error. Details: connect ECONNREFUSED'']\<rparr>)"
  by (simp add: fixture_defs find_defs)


subsection \<open>Empty criteria\<close>

text \<open>
  C3. For a nil criteria and for a criteria object without keys, \<^verbatim>\<open>updateMatching\<close> and
  \<^verbatim>\<open>deleteMatching\<close> reject with an error; the gateway afterwards differs from the
  gateway before only by the line on the console, so no statement has reached the pool,
  not even the schema query.
\<close>

theorem empty_criteria_refused:
  "updateMatching save None opts d =
     (Inl (Error ''Entire table updates are not permitted.''),
      d\<lparr>console := console d @ [entity d @ '' update error. Details: Entire table updates are not permitted.'']\<rparr>)
   \<and> updateMatching save (Some []) opts d =
     (Inl (Error ''Entire table updates are not permitted.''),
      d\<lparr>console := console d @ [entity d @ '' update error. Details: Entire table updates are not permitted.'']\<rparr>)
   \<and> deleteMatching None d =
     (Inl (Error ''Entire table deletes are not permitted.''),
      d\<lparr>console := console d @ [entity d @ '' deleteMatching error. Details: Entire table deletes are not permitted.'']\<rparr>)
   \<and> deleteMatching (Some []) d =
     (Inl (Error ''Entire table deletes are not permitted.''),
      d\<lparr>console := console d @ [entity d @ '' deleteMatching error. Details: Entire table deletes are not permitted.'']\<rparr>)"
  by (simp add: updateMatching_def updateMatching_body_def deleteMatching_def deleteMatching_body_def
      lodash_isEmpty_def logged_def)

theorem empty_criteria_refused_witness:
  "issued (snd (updateMatching [(''name'', JStr ''Bo'')] (Some []) None (sample_dao sample_pool))) = []
   \<and> issued (snd (deleteMatching (Some []) (sample_dao sample_pool))) = []
   \<and> fst (deleteMatching (Some []) (sample_dao sample_pool)) =
        Inl (Error ''Entire table deletes are not permitted.'')"
  using empty_criteria_refused [of "[(''name'', JStr ''Bo'')]" None "sample_dao sample_pool"]
  by (simp add: fixture_defs)

text \<open>
  The later revision of \<^verbatim>\<open>updateMatching\<close> refuses a nil criteria only: with the empty
  object it goes on and updates every row of the table.
\<close>

lemmas updateMatching_v4_defs = updateMatching_v4_def updateMatching_v4_body_def logged_def
  loadMetadata_def sqlCommand_def column_of_row_def where_sql_def versioning_def driven_def
  transformToSafeValue_v4_def numeric_or_date_def startsWith_def appendOrderByAndLimit_v4_def
  for_in_def

lemma updateMatching_v4_empty_object:
  "updateMatching_v4 [(''name'', JStr ''Bo'')] (Some []) None (sample_dao sample_pool) =
     (Inr [(''name'', JStr ''Bo''), (''_affectedRows'', JNum 1)],
      (loadMetadata (sample_dao sample_pool))
        \<lparr>issued := [(''SHOW COLUMNS FROM t_customer;'', []),
                    (''UPDATE t_customer SET name=?, updated=CURRENT_TIMESTAMP, version=version+1 ORDER BY id ASC'',
                     [JStr ''Bo''])]\<rparr>)"
  by (simp add: fixture_defs updateMatching_v4_defs)

subsection \<open>The SET list of update\<close>

lemma names_for_in: "names (for_in ob) = map fst ob"
  by (simp add: names_def for_in_def comp_def)

lemma names_lodash_each: "names (lodash_each ob) = (if isArrayLike ob then [] else map fst ob)"
proof (cases "array_length (js_prop (JObj ob) ''length'')")
  case None
  then show ?thesis by (simp add: lodash_each_def isArrayLike_def names_for_in)
next
  case (Some n)
  then show ?thesis by (simp add: lodash_each_def isArrayLike_def names_def comp_def)
qed

text \<open>An object without a numeric \<^verbatim>\<open>length\<close> is walked by its properties, in both revisions alike.\<close>

lemma lodash_each_plain: "\<not> isArrayLike ob \<Longrightarrow> lodash_each ob = for_in ob"
  by (simp add: lodash_each_def isArrayLike_def)

lemma find_by_number: "\<not> is_string k \<Longrightarrow> List.find (\<lambda>c. JStr (column c) = k) cs = None"
  by (cases k) (simp_all add: find_None_iff)

lemma names_Cons:
  "names ((k, v) # rest) = (case k of JStr s \<Rightarrow> s # names rest | _ \<Rightarrow> names rest)"
  by (cases k) (simp_all add: names_def)

lemma sets_loop_text:
  "sets_loop tr opts not_pks visits (sets0, ps0) = Inr (sets, ps) \<Longrightarrow>
   sets = foldl (sep_append '', '') sets0 (map (\<lambda>c. c @ ''=?'') (set_terms opts not_pks (names visits)))
   \<and> length ps = length ps0 + length (set_terms opts not_pks (names visits))"
proof (induction visits arbitrary: sets0 ps0)
  case Nil
  then show ?case by (simp add: set_terms_def names_def)
next
  case (Cons kv rest)
  obtain k v where kv: "kv = (k, v)" by (cases kv)
  show ?case
  proof (cases "List.find (\<lambda>c. JStr (column c) = k) not_pks")
    case None
    then have "set_terms opts not_pks (names (kv # rest)) = set_terms opts not_pks (names rest)"
      unfolding kv by (cases k) (simp_all add: names_Cons set_terms_def)
    with Cons kv None show ?thesis by simp
  next
    case (Some col)
    then have ck: "k = JStr (column col)" by (auto simp: find_Some_iff)
    from Some have f: "List.find (\<lambda>c. column c = column col) not_pks = Some col"
      unfolding ck by simp
    show ?thesis
    proof (cases "driven opts col")
      case True
      with f have "set_terms opts not_pks (names (kv # rest)) = set_terms opts not_pks (names rest)"
        unfolding kv ck by (simp add: names_Cons set_terms_def)
      with Cons kv Some True show ?thesis by simp
    next
      case False
      with f have here: "set_terms opts not_pks (names (kv # rest)) =
                           column col # set_terms opts not_pks (names rest)"
        unfolding kv ck by (simp add: names_Cons set_terms_def)
      from Cons.prems kv Some False obtain pv where
        rec: "sets_loop tr opts not_pks rest
                ((if sets0 \<noteq> [] then sets0 @ '', '' else sets0) @ column col @ ''=?'',
                 ps0 @ [if isNil pv then JNull else pv]) = Inr (sets, ps)"
        by (auto split: sum.splits)
      from Cons.IH [OF rec] here show ?thesis
        by (simp add: sep_append_def)
    qed
  qed
qed

lemma sets_loop_none:
  "set_terms opts not_pks (names visits) = [] \<Longrightarrow> sets_loop tr opts not_pks visits acc = Inr acc"
proof (induction visits)
  case Nil
  show ?case by simp
next
  case (Cons kv rest)
  obtain k v where kv: "kv = (k, v)" by (cases kv)
  obtain s p where acc: "acc = (s, p)" by (cases acc)
  show ?case
  proof (cases "List.find (\<lambda>c. JStr (column c) = k) not_pks")
    case None
    then have "set_terms opts not_pks (names (kv # rest)) = set_terms opts not_pks (names rest)"
      unfolding kv by (cases k) (simp_all add: names_Cons set_terms_def)
    with Cons kv acc None show ?thesis by simp
  next
    case (Some col)
    then have ck: "k = JStr (column col)" by (auto simp: find_Some_iff)
    from Some have f: "List.find (\<lambda>c. column c = column col) not_pks = Some col"
      unfolding ck by simp
    from Cons.prems f have d: "driven opts col" and rest: "set_terms opts not_pks (names rest) = []"
      unfolding kv ck by (auto simp: names_Cons set_terms_def split: if_splits)
    from Cons.IH [OF rest] Some d kv acc show ?thesis by simp
  qed
qed

lemma pk_loop_text:
  "pk_loop save pks (wh0, ps0) =
     (foldl (sep_append '' AND '') wh0 (map (\<lambda>c. column c @ ''=?'') pks),
      ps0 @ map (\<lambda>c. js_prop (JObj save) (column c)) pks)"
  by (induction pks arbitrary: wh0 ps0) (simp_all add: sep_append_def)

lemma driven_by_name: "column c = column c' \<Longrightarrow> driven opts c = driven opts c'"
  by (simp add: driven_def)

lemma flagged_driven: "flags_agree opts c \<Longrightarrow> flagged c \<Longrightarrow> driven opts c"
  by (auto simp: flags_agree_def flagged_def driven_def)

lemma flagged_not_set:
  assumes "flags_agree opts c" "flagged c"
  shows "column c \<notin> set (set_columns opts not_pks save)"
proof
  assume "column c \<in> set (set_columns opts not_pks save)"
  then obtain col where "List.find (\<lambda>x. column x = column c) not_pks = Some col" "\<not> driven opts col"
    by (auto simp: set_columns_def set_terms_def split: option.splits)
  then have "column col = column c" "\<not> driven opts col" by (auto simp: find_Some_iff)
  with driven_by_name [of col c opts] flagged_driven [OF assms] show False by simp
qed

lemma versioning_updated:
  assumes "flags_agree opts c" "is_updated_timestamp c" "column c \<noteq> []"
  shows "\<exists>rest. versioning opts = '', '' @ column c @ ''=CURRENT_TIMESTAMP'' @ rest"
proof -
  from assms have "updated_timestamp_column opts = JStr (column c)" by (auto simp: flags_agree_def)
  with assms(3) show ?thesis by (simp add: versioning_def)
qed

lemma versioning_version:
  assumes "flags_agree opts c" "is_updated_version c" "column c \<noteq> []"
  shows "\<exists>front. versioning opts = front @ '', '' @ column c @ ''='' @ column c @ ''+1''"
proof -
  from assms have "version_number_column opts = JStr (column c)" by (auto simp: flags_agree_def)
  with assms(3) show ?thesis by (simp add: versioning_def)
qed

text \<open>The three ways \<^verbatim>\<open>update\<close> can go, before the frame logs a failure.\<close>

lemma update_cases:
  fixes d save
  defines "d1 \<equiv> fetchMetadata d"
  defines "cols \<equiv> set_columns (options d) (filter (\<lambda>c. pk c = False) (columns_of d1)) save"
  defines "sql \<equiv> ''UPDATE '' @ table d @ '' SET '' @ joined '', '' (map (\<lambda>c. c @ ''=?'') cols)
                 @ versioning (options d)
                 @ where_sql [] (joined '' AND '' (map (\<lambda>c. column c @ ''=?'') (filter pk (columns_of d1))))"
  shows "(cols = [] \<and> update_body save d = (Inl (Error ''No data was provided to update.''), d1))
       \<or> (cols \<noteq> [] \<and> (\<exists>e. update_body save d = (Inl e, d1)))
       \<or> (cols \<noteq> [] \<and> (\<exists>ps. length ps = length cols + length (filter pk (columns_of d1))
             \<and> update_body save d =
                 (case pool d (issued d1) sql ps of
                    Inl e \<Rightarrow> Inl e
                  | Inr res \<Rightarrow> Inr (obj_set save ''_affectedRows'' (affectedRows res)),
                  d1\<lparr>issued := issued d1 @ [(sql, ps)]\<rparr>)))"
proof (cases "sets_loop (transformToSafeValue d1) (options d1)
                (filter (\<lambda>c. pk c = False) (columns_of d1)) (lodash_each save) ([], [])")
  case (Inl e)
  have "cols \<noteq> []"
  proof
    assume "cols = []"
    then have "sets_loop (transformToSafeValue d1) (options d1)
                 (filter (\<lambda>c. pk c = False) (columns_of d1)) (lodash_each save) ([], []) = Inr ([], [])"
      unfolding cols_def d1_def set_columns_def using sets_loop_none by simp
    with Inl show False by simp
  qed
  moreover from Inl have "update_body save d = (Inl e, d1)"
    by (simp add: update_body_def Let_def d1_def)
  ultimately show ?thesis by blast
next
  case (Inr r)
  obtain sets ps where r: "r = (sets, ps)" by (cases r)
  from sets_loop_text [of _ _ _ "lodash_each save" "[]" "[]" sets ps] Inr r
  have sets: "sets = joined '', '' (map (\<lambda>c. c @ ''=?'') cols)" and len: "length ps = length cols"
    by (simp_all add: joined_def cols_def d1_def set_columns_def)
  show ?thesis
  proof (cases "cols = []")
    case True
    with sets have "sets = []" by simp
    with Inr r have "update_body save d = (Inl (Error ''No data was provided to update.''), d1)"
      by (simp add: update_body_def Let_def d1_def)
    with True show ?thesis by blast
  next
    case False
    then obtain c cs where cc: "cols = c # cs" by (cases cols) auto
    have ne: "sets \<noteq> []"
    proof -
      have "\<And>acc. acc \<noteq> [] \<Longrightarrow> foldl (sep_append '', '') acc (map (\<lambda>c. c @ ''=?'') cs) \<noteq> []"
        by (induction cs) (simp_all add: sep_append_def)
      then show ?thesis unfolding sets cc joined_def by (simp add: sep_append_def)
    qed
    let ?ps1 = "ps @ map (\<lambda>c. js_prop (JObj save) (column c)) (filter pk (columns_of d1))"
    from Inr r ne sets have "update_body save d =
                 (case pool d (issued d1) sql ?ps1 of
                    Inl e \<Rightarrow> Inl e
                  | Inr res \<Rightarrow> Inr (obj_set save ''_affectedRows'' (affectedRows res)),
                  d1\<lparr>issued := issued d1 @ [(sql, ?ps1)]\<rparr>)"
      by (simp add: update_body_def Let_def pk_loop_text sqlCommand_def sql_def joined_def
          where_sql_def d1_def split: sum.splits)
    moreover have "length ?ps1 = length cols + length (filter pk (columns_of d1))"
      using len by simp
    ultimately show ?thesis using False by blast
  qed
qed

text \<open>
  C5, as amended. Let the metadata that \<^verbatim>\<open>update\<close> works with carry the flags that
  \<^verbatim>\<open>fetchMetadata\<close> computes. Then, for every entity: no \<^verbatim>\<open>column=?\<close> term is
  written for a flagged column; the SET list of the statement is the terms of the
  remaining matching properties followed by \<open>versioning\<close>, which sets the
  updated-timestamp column to \<^verbatim>\<open>CURRENT_TIMESTAMP\<close> and the version column to itself
  \<^verbatim>\<open>+1\<close>; \<^verbatim>\<open>update\<close> hands the pool at most that one statement after the metadata is
  there, and exactly that one when it fulfils; and when no property remains, it rejects
  with "No data was provided to update." and no statement follows the loading of
  the metadata (which is one schema query on a gateway that has not loaded it yet, and
  nothing otherwise).
\<close>

theorem update_drives_timestamps_and_version:
  assumes "\<forall>c \<in> set (columns_of (fetchMetadata d)). flags_agree (options d) c"
  shows
   "let md = columns_of (fetchMetadata d);
        cols = set_columns (options d) (filter (\<lambda>c. pk c = False) md) save;
        sql = ''UPDATE '' @ table d @ '' SET '' @ joined '', '' (map (\<lambda>c. c @ ''=?'') cols)
                @ versioning (options d)
                @ where_sql [] (joined '' AND '' (map (\<lambda>c. column c @ ''=?'') (filter pk md)))
    in (\<forall>c \<in> set md. flagged c \<longrightarrow> column c \<notin> set cols)
     \<and> (\<forall>c \<in> set md. is_updated_timestamp c \<and> column c \<noteq> [] \<longrightarrow>
           (\<exists>rest. versioning (options d) = '', '' @ column c @ ''=CURRENT_TIMESTAMP'' @ rest))
     \<and> (\<forall>c \<in> set md. is_updated_version c \<and> column c \<noteq> [] \<longrightarrow>
           (\<exists>front. versioning (options d) = front @ '', '' @ column c @ ''='' @ column c @ ''+1''))
     \<and> (issued (snd (update save d)) = issued (fetchMetadata d)
          \<or> (\<exists>ps. issued (snd (update save d)) = issued (fetchMetadata d) @ [(sql, ps)]
                \<and> length ps = length cols + length (filter pk md)))
     \<and> (\<forall>r. fst (update save d) = Inr r \<longrightarrow>
           (\<exists>ps. issued (snd (update save d)) = issued (fetchMetadata d) @ [(sql, ps)]))
     \<and> (cols = [] \<longrightarrow>
           update save d =
             (Inl (Error ''No data was provided to update.''),
              (fetchMetadata d)\<lparr>console := console (fetchMetadata d)
                 @ [entity d @ '' update error. Details: No data was provided to update.'']\<rparr>))"
proof -
  define md where "md = columns_of (fetchMetadata d)"
  define cols where "cols = set_columns (options d) (filter (\<lambda>c. pk c = False) md) save"
  define sql where "sql = ''UPDATE '' @ table d @ '' SET '' @ joined '', '' (map (\<lambda>c. c @ ''=?'') cols)
                @ versioning (options d)
                @ where_sql [] (joined '' AND '' (map (\<lambda>c. column c @ ''=?'') (filter pk md)))"
  have p1: "\<forall>c \<in> set md. flagged c \<longrightarrow> column c \<notin> set cols"
    using assms flagged_not_set unfolding md_def cols_def by blast
  have p2: "\<forall>c \<in> set md. is_updated_timestamp c \<and> column c \<noteq> [] \<longrightarrow>
           (\<exists>rest. versioning (options d) = '', '' @ column c @ ''=CURRENT_TIMESTAMP'' @ rest)"
    using assms versioning_updated unfolding md_def by blast
  have p3: "\<forall>c \<in> set md. is_updated_version c \<and> column c \<noteq> [] \<longrightarrow>
           (\<exists>front. versioning (options d) = front @ '', '' @ column c @ ''='' @ column c @ ''+1'')"
    using assms versioning_version unfolding md_def by blast
  have cases: "(cols = [] \<and> update_body save d = (Inl (Error ''No data was provided to update.''), fetchMetadata d))
       \<or> (cols \<noteq> [] \<and> (\<exists>e. update_body save d = (Inl e, fetchMetadata d)))
       \<or> (cols \<noteq> [] \<and> (\<exists>ps. length ps = length cols + length (filter pk md)
             \<and> update_body save d =
                 (case pool d (issued (fetchMetadata d)) sql ps of
                    Inl e \<Rightarrow> Inl e
                  | Inr res \<Rightarrow> Inr (obj_set save ''_affectedRows'' (affectedRows res)),
                  (fetchMetadata d)\<lparr>issued := issued (fetchMetadata d) @ [(sql, ps)]\<rparr>)))"
    using update_cases [of d save] unfolding md_def cols_def sql_def by simp
  have p4: "issued (snd (update save d)) = issued (fetchMetadata d)
          \<or> (\<exists>ps. issued (snd (update save d)) = issued (fetchMetadata d) @ [(sql, ps)]
                \<and> length ps = length cols + length (filter pk md))"
    using cases unfolding update_def logged_issued by auto
  have p5: "\<forall>r. fst (update save d) = Inr r \<longrightarrow>
           (\<exists>ps. issued (snd (update save d)) = issued (fetchMetadata d) @ [(sql, ps)])"
    using cases unfolding update_def logged_issued logged_fst by auto
  have p6: "cols = [] \<longrightarrow>
           update save d =
             (Inl (Error ''No data was provided to update.''),
              (fetchMetadata d)\<lparr>console := console (fetchMetadata d)
                 @ [entity d @ '' update error. Details: No data was provided to update.'']\<rparr>)"
    using cases unfolding update_def by (auto simp: logged_def)
  from p1 p2 p3 p4 p5 p6 show ?thesis
    unfolding Let_def md_def [symmetric] cols_def [symmetric] sql_def [symmetric] by blast
qed

lemmas update_defs = update_def update_body_def logged_def fetchMetadata_def sqlCommand_def
  column_of_row_def columns_of_def where_sql_def versioning_def driven_def
  transformToSafeValue_def numeric_or_date_def startsWith_def lodash_each_def for_in_def

theorem update_drives_timestamps_and_version_witness:
  "list_all (flags_agree (options (sample_dao sample_pool)))
      (columns_of (fetchMetadata (sample_dao sample_pool)))
   \<and> update [(''id'', JNum 4), (''name'', JStr ''Bo''), (''updated'', JStr ''2020-01-01''),
              (''version'', JNum 9), (''nickname'', JStr ''B'')] (sample_dao sample_pool) =
       (Inr [(''id'', JNum 4), (''name'', JStr ''Bo''), (''updated'', JStr ''2020-01-01''),
             (''version'', JNum 9), (''nickname'', JStr ''B''), (''_affectedRows'', JNum 1)],
        (fetchMetadata (sample_dao sample_pool))
          \<lparr>issued := [(''SHOW COLUMNS FROM t_customer;'', []),
                      (''UPDATE t_customer SET name=?, updated=CURRENT_TIMESTAMP, version=version+1 WHERE id=?'',
                       [JStr ''Bo'', JNum 4])]\<rparr>)
   \<and> (\<exists>ps. issued (snd (update [(''id'', JNum 4), (''name'', JStr ''Bo''), (''updated'', JStr ''2020-01-01''),
              (''version'', JNum 9), (''nickname'', JStr ''B'')] (sample_dao sample_pool))) =
            issued (fetchMetadata (sample_dao sample_pool)) @ [(
              ''UPDATE '' @ table (sample_dao sample_pool) @ '' SET ''
                @ joined '', '' (map (\<lambda>c. c @ ''=?'')
                    (set_columns (options (sample_dao sample_pool))
                      (filter (\<lambda>c. pk c = False) (columns_of (fetchMetadata (sample_dao sample_pool))))
                      [(''id'', JNum 4), (''name'', JStr ''Bo''), (''updated'', JStr ''2020-01-01''),
                       (''version'', JNum 9), (''nickname'', JStr ''B'')]))
                @ versioning (options (sample_dao sample_pool))
                @ where_sql [] (joined '' AND '' (map (\<lambda>c. column c @ ''=?'')
                    (filter pk (columns_of (fetchMetadata (sample_dao sample_pool)))))), ps)])"
proof -
  let ?d = "sample_dao sample_pool"
  let ?save = "[(''id'', JNum 4), (''name'', JStr ''Bo''), (''updated'', JStr ''2020-01-01''),
              (''version'', JNum 9), (''nickname'', JStr ''B'')]"
  have flags: "list_all (flags_agree (options ?d)) (columns_of (fetchMetadata ?d))"
    by (simp add: fixture_defs update_defs flags_agree_def)
  then have hyp: "\<forall>c \<in> set (columns_of (fetchMetadata ?d)). flags_agree (options ?d) c"
    by (simp add: list_all_iff)
  have run: "update ?save ?d =
       (Inr [(''id'', JNum 4), (''name'', JStr ''Bo''), (''updated'', JStr ''2020-01-01''),
             (''version'', JNum 9), (''nickname'', JStr ''B''), (''_affectedRows'', JNum 1)],
        (fetchMetadata ?d)
          \<lparr>issued := [(''SHOW COLUMNS FROM t_customer;'', []),
                      (''UPDATE t_customer SET name=?, updated=CURRENT_TIMESTAMP, version=version+1 WHERE id=?'',
                       [JStr ''Bo'', JNum 4])]\<rparr>)"
    by (simp add: fixture_defs update_defs)
  then have ful: "fst (update ?save ?d) = Inr [(''id'', JNum 4), (''name'', JStr ''Bo''), (''updated'', JStr ''2020-01-01''),
             (''version'', JNum 9), (''nickname'', JStr ''B''), (''_affectedRows'', JNum 1)]"
    by simp
  from update_drives_timestamps_and_version [OF hyp, of ?save] ful
  have "\<exists>ps. issued (snd (update ?save ?d)) =
            issued (fetchMetadata ?d) @ [(
              ''UPDATE '' @ table ?d @ '' SET ''
                @ joined '', '' (map (\<lambda>c. c @ ''=?'')
                    (set_columns (options ?d) (filter (\<lambda>c. pk c = False) (columns_of (fetchMetadata ?d))) ?save))
                @ versioning (options ?d)
                @ where_sql [] (joined '' AND '' (map (\<lambda>c. column c @ ''=?'')
                    (filter pk (columns_of (fetchMetadata ?d))))), ps)]"
    unfolding Let_def by blast
  with flags run show ?thesis by (intro conjI)
qed

text \<open>
  C5 as stated fails on "issues no SQL": \<^verbatim>\<open>update({})\<close> on a gateway that has not
  loaded its metadata yet rejects, and the pool has received the schema query.
\<close>

theorem update_counterexample:
  "fst (update [] (sample_dao sample_pool)) = Inl (Error ''No data was provided to update.'')
   \<and> issued (snd (update [] (sample_dao sample_pool))) = [(''SHOW COLUMNS FROM t_customer;'', [])]"
  by (simp add: fixture_defs update_defs)

text \<open>
  What lodash's walk does to an object with a numeric \<^verbatim>\<open>length\<close> property in
  lib/mysql/dao.js: as an entity it yields no SET term, so \<^verbatim>\<open>update\<close> rejects; as a
  criteria it passes the \<^verbatim>\<open>_.isEmpty\<close> guard of \<^verbatim>\<open>updateMatching\<close> (it has a
  property) and, with length 0, yields no WHERE clause.
\<close>

lemma set_columns_array_like: "isArrayLike save \<Longrightarrow> set_columns opts not_pks save = []"
  by (simp add: set_columns_def set_terms_def names_lodash_each)

lemma set_columns_plain:
  "\<not> isArrayLike save \<Longrightarrow> set_columns opts not_pks save = set_terms opts not_pks (map fst save)"
  by (simp add: set_columns_def names_lodash_each)

lemma update_array_like_entity:
  "fst (update [(''length'', JNum 1), (''name'', JStr ''Bo'')] (sample_dao sample_pool)) =
     Inl (Error ''No data was provided to update.'')"
  by (simp add: fixture_defs update_defs upto.simps show_int_def digits.simps)

lemma updateMatching_array_like_criteria:
  "updateMatching [(''name'', JStr ''Bo'')] (Some [(''length'', JNum 0)]) None (sample_dao sample_pool) =
     (Inr [(''name'', JStr ''Bo''), (''_affectedRows'', JNum 1)],
      (fetchMetadata (sample_dao sample_pool))
        \<lparr>issued := [(''SHOW COLUMNS FROM t_customer;'', []),
                    (''UPDATE t_customer SET name=?, updated=CURRENT_TIMESTAMP, version=version+1 ORDER BY id ASC'',
                     [JStr ''Bo''])]\<rparr>)"
  by (simp add: fixture_defs update_defs updateMatching_def updateMatching_body_def lodash_isEmpty_def
      appendOrderByAndLimit_def upto.simps)

subsection \<open>The INSERT of create\<close>


lemma insert_pairs_Nil [simp]: "insert_pairs el [] = []"
  by (simp add: insert_pairs_def)






text \<open>
  Only an empty string can be refused by the value transform. Without one, the parameters
  are the values of the pairs taken, dates formatted in lib/mysql/dao.js.
\<close>

lemma insert_parms_v4_plain:
  "\<forall>(c, v) \<in> set pairs. v \<noteq> JStr [] \<Longrightarrow>
   insert_parms transformToSafeValue_v4 pairs = Inr (map snd pairs)"
proof (induction pairs)
  case Nil
  show ?case by (simp add: insert_parms_def)
next
  case (Cons p pairs)
  obtain c v where p: "p = (c, v)" by (cases p)
  from Cons show ?case unfolding p
    by (simp add: insert_parms_def transformToSafeValue_v4_def)
qed

lemma insert_parms_plain:
  "\<forall>(c, v) \<in> set pairs. v \<noteq> JStr [] \<Longrightarrow>
   insert_parms (transformToSafeValue d) pairs =
     Inr (map (\<lambda>(c, v). if \<not> isNil v \<and> (sql_type c = ''datetime'' \<or> sql_type c = ''timestamp'')
                         then moment_format d v else v) pairs)"
proof (induction pairs)
  case Nil
  show ?case by (simp add: insert_parms_def)
next
  case (Cons p pairs)
  obtain c v where p: "p = (c, v)" by (cases p)
  from Cons show ?case unfolding p
    by (simp add: insert_parms_def transformToSafeValue_def)
qed






lemma columns_of_issued [simp]: "columns_of (d\<lparr>issued := x\<rparr>) = columns_of d"
  by (simp add: columns_of_def)









lemmas create_defs = create_def create_body_def create_v4_def create_v4_body_def logged_def
  loadMetadata_def fetchMetadata_def sqlCommand_def columns_of_def
  column_of_row_def not_ai_pk_def override_def transformToSafeValue_v4_def transformToSafeValue_def
  numeric_or_date_def startsWith_def joined_def sep_append_def lodash_each_def for_in_def
  insert_pairs_def insert_parms_def insert_sql_def


text \<open>
  An entity with a numeric \<^verbatim>\<open>length\<close> property. lodash walks it by index in
  lib/mysql/dao.js, no key names a column, and the INSERT has no columns; the later
  revision walks its properties.
\<close>

lemma create_array_like_entity:
  "create [(''length'', JNum 2), (''name'', JStr ''Bo'')] (sample_dao sample_pool) =
     (Inr [(''length'', JNum 2), (''name'', JStr ''Bo''), (''id'', JNum 7)],
      (fetchMetadata (sample_dao sample_pool))
        \<lparr>issued := [(''SHOW COLUMNS FROM t_customer;'', []),
                    (''INSERT INTO t_customer () VALUES ();'', [])]\<rparr>)
   \<and> create_v4 [(''length'', JNum 2), (''name'', JStr ''Bo'')] None (sample_dao sample_pool) =
     (Inr [(''length'', JNum 2), (''name'', JStr ''Bo''), (''id'', JNum 7)],
      (loadMetadata (sample_dao sample_pool))
        \<lparr>issued := [(''SHOW COLUMNS FROM t_customer;'', []),
                    (''INSERT INTO t_customer (name) VALUES (?);'', [JStr ''Bo''])]\<rparr>)"
  by (simp add: fixture_defs create_defs upto.simps show_int_def digits.simps)


subsection \<open>The undeclared resolve\<close>

text \<open>
  C10. \<^verbatim>\<open>exists\<close> never fulfils, whatever the id, the gateway and its pool; when the
  count query succeeds with a row, the promise rejects with the ReferenceError of the
  undeclared \<^verbatim>\<open>resolve\<close>, written to the console and rethrown. \<^verbatim>\<open>deleteWhere\<close> never
  fulfils either: with a WHERE clause and a pool that executes the DELETE, the statement
  has reached the pool and the promise rejects with the same ReferenceError.
\<close>

theorem exists_never_fulfils:
  "isl (fst (exists ident d))
   \<and> isl (fst (deleteWhere wh ps d))
   \<and> (pool d (issued (fetchMetadata d))
          (''SELECT count(*) as count FROM '' @ table d @ '' WHERE id = ?'') [ident] = Inr (Rows (r # rs))
        \<longrightarrow> fst (exists ident d) = Inl (ReferenceError ''resolve is not defined'')
            \<and> console (snd (exists ident d)) =
                console (fetchMetadata d) @ [entity d @ '' exists error. Details: resolve is not defined''])
   \<and> (w \<noteq> [] \<and> pool d (issued (fetchMetadata d)) (''DELETE FROM '' @ table d @ '' WHERE '' @ w) ps = Inr res
        \<longrightarrow> fst (deleteWhere (Some w) ps d) = Inl (ReferenceError ''resolve is not defined'')
            \<and> issued (snd (deleteWhere (Some w) ps d)) =
                issued (fetchMetadata d) @ [(''DELETE FROM '' @ table d @ '' WHERE '' @ w, ps)]
            \<and> console (snd (deleteWhere (Some w) ps d)) =
                console (fetchMetadata d) @ [entity d @ '' deleteWhere error. Details: resolve is not defined''])"
proof -
  have a: "isl (fst (exists ident d))"
    by (simp add: exists_def exists_body_def logged_def sqlCommand_def Let_def
        split: sum.splits dbresult.splits list.splits prod.splits)
  have b: "isl (fst (deleteWhere wh ps d))"
    by (simp add: deleteWhere_def deleteWhere_body_def logged_def sqlCommand_def Let_def
        split: sum.splits option.splits prod.splits)
  have c: "pool d (issued (fetchMetadata d))
          (''SELECT count(*) as count FROM '' @ table d @ '' WHERE id = ?'') [ident] = Inr (Rows (r # rs))
        \<longrightarrow> fst (exists ident d) = Inl (ReferenceError ''resolve is not defined'')
            \<and> console (snd (exists ident d)) =
                console (fetchMetadata d) @ [entity d @ '' exists error. Details: resolve is not defined'']"
    by (simp add: exists_def exists_body_def logged_def sqlCommand_def Let_def)
  have e: "w \<noteq> [] \<and> pool d (issued (fetchMetadata d)) (''DELETE FROM '' @ table d @ '' WHERE '' @ w) ps = Inr res
        \<longrightarrow> fst (deleteWhere (Some w) ps d) = Inl (ReferenceError ''resolve is not defined'')
            \<and> issued (snd (deleteWhere (Some w) ps d)) =
                issued (fetchMetadata d) @ [(''DELETE FROM '' @ table d @ '' WHERE '' @ w, ps)]
            \<and> console (snd (deleteWhere (Some w) ps d)) =
                console (fetchMetadata d) @ [entity d @ '' deleteWhere error. Details: resolve is not defined'']"
    by (simp add: deleteWhere_def deleteWhere_body_def logged_def sqlCommand_def Let_def)
  from a b c e show ?thesis by blast
qed

theorem exists_never_fulfils_witness:
  "exists (JNum 1) (sample_dao sample_pool) =
     (Inl (ReferenceError ''resolve is not defined''),
      (fetchMetadata (sample_dao sample_pool))
        \<lparr>issued := [(''SHOW COLUMNS FROM t_customer;'', []),
                    (''SELECT count(*) as count FROM t_customer WHERE id = ?'', [JNum 1])],
         console := [''customer exists error. Details: resolve is not defined'']\<rparr>)
   \<and> fst (deleteWhere (Some ''status=?'') [JStr ''gone''] (sample_dao sample_pool)) =
        Inl (ReferenceError ''resolve is not defined'')
   \<and> issued (snd (deleteWhere (Some ''status=?'') [JStr ''gone''] (sample_dao sample_pool))) =
        [(''SHOW COLUMNS FROM t_customer;'', []),
         (''DELETE FROM t_customer WHERE status=?'', [JStr ''gone''])]"
  using exists_never_fulfils [of "JNum 1" "sample_dao sample_pool" "Some ''status=?''" "[JStr ''gone'']"
      "[(''count'', JNum 3)]" "[]" "''status=?''" "Ack 1 (Some 0)"]
  by (simp add: fixture_defs exists_def exists_body_def deleteWhere_def deleteWhere_body_def
      logged_def fetchMetadata_def sqlCommand_def column_of_row_def startsWith_def)


end
